theory Spec2Isabelle
  imports Complex_Main
begin

section \<open>Python strings\<close>

text \<open>
  A Python \<open>str\<close> is a sequence of Unicode code points. The program's own literals hold
  code points beyond Latin-1 (an en dash in the prompt template, pictographs in the
  messages), so a string is modelled as the list of its code points, and \<open>len\<close> is
  \<open>length\<close>. \<open>cp\<close> writes the ASCII stretches of a literal; every other character
  (line feed 10, apostrophe 39, backquote 96, and the non-ASCII ones) is written as its
  code point.
\<close>

type_synonym pystr = "nat list"

definition cp :: "string \<Rightarrow> pystr" where
  "cp s = map of_char s"

text \<open>
  \<open>str.isspace\<close> on one character, as CPython's Unicode database decides it: the
  characters \<open>str.strip()\<close> removes when it is called without an argument.
\<close>

definition py_isspace :: "nat \<Rightarrow> bool" where
  "py_isspace c \<longleftrightarrow>
     (9 \<le> c \<and> c \<le> 13) \<or> (28 \<le> c \<and> c \<le> 32) \<or> c = 133 \<or> c = 160 \<or> c = 5760 \<or>
     (8192 \<le> c \<and> c \<le> 8202) \<or> c = 8232 \<or> c = 8233 \<or> c = 8239 \<or> c = 8287 \<or> c = 12288"

text \<open>\<open>s.strip()\<close>: leading and trailing whitespace removed.\<close>

definition strip :: "pystr \<Rightarrow> pystr" where
  "strip s = rev (dropWhile py_isspace (rev (dropWhile py_isspace s)))"

text \<open>Truthiness of a string (\<open>if s:\<close>) and of an optional string (\<open>None\<close> is falsy).\<close>

definition truthy_str :: "pystr \<Rightarrow> bool" where
  "truthy_str s \<longleftrightarrow> s \<noteq> []"

definition truthy_opt_str :: "pystr option \<Rightarrow> bool" where
  "truthy_opt_str t = (case t of None \<Rightarrow> False | Some s \<Rightarrow> truthy_str s)"

section \<open>The provider's objects, as the program probes them\<close>

text \<open>
  The response of \<open>generate_content\<close> is an object of the provider's library. The
  program reads it by attribute probing only (\<open>hasattr\<close>, \<open>getattr\<close> with a default,
  truthiness). Reading an attribute of such an object has one of three outcomes:
  \<^item> \<open>Missing\<close>: the read raises \<open>AttributeError\<close>, so \<open>hasattr\<close> is false and
    \<open>getattr\<close> returns its default;
  \<^item> \<open>Raises e\<close>: the read raises another exception (the provider's accessors are
    properties, and raise \<open>ValueError\<close> when the response holds no candidate or no
    part); \<open>hasattr\<close> and \<open>getattr\<close> let it pass;
  \<^item> \<open>Value v\<close>: the read returns \<open>v\<close>.

  For \<open>resp_parts\<close>, \<open>resp_text\<close> and \<open>resp_prompt_feedback\<close>, \<open>Missing\<close> also stands
  for an attribute whose value is \<open>None\<close>: the program treats both alike.

  \<^item> \<open>part_text\<close>: \<open>part.text\<close>;
  \<^item> \<open>br_name\<close>: \<open>block_reason.name\<close>, the name of the enumeration member;
  \<^item> \<open>fb_truthy\<close>: \<open>bool(feedback)\<close>, which the class of the feedback object decides;
  \<^item> \<open>fb_block_reason\<close>: \<open>feedback.block_reason\<close>, absent when
    \<open>hasattr(feedback, 'block_reason')\<close> is false;
  \<^item> \<open>resp_parts\<close>, \<open>resp_text\<close>, \<open>resp_prompt_feedback\<close>: \<open>response.parts\<close>,
    \<open>response.text\<close>, \<open>response.prompt_feedback\<close>.

  An exception is carried by its message, \<open>str(e)\<close>; only instances of \<open>Exception\<close>
  are meant, the class the program's handlers catch.
\<close>

datatype exn = Exception pystr

datatype 'a attr = Missing | Raises exn | Value 'a

record part =
  part_text :: "pystr attr"

record block_reason =
  br_name :: pystr

record feedback =
  fb_truthy :: bool
  fb_block_reason :: "block_reason option"

record response =
  resp_parts :: "part list attr"
  resp_text :: "pystr attr"
  resp_prompt_feedback :: "feedback attr"

text \<open>\<open>genai.types.GenerationConfig(...)\<close> and one entry of \<open>safety_settings\<close>.\<close>

record generation_config =
  temperature :: rat
  top_p :: rat
  top_k :: nat
  max_output_tokens :: nat

record safety_setting =
  category :: pystr
  threshold :: pystr

text \<open>\<open>genai.GenerativeModel(name)\<close>: the handle of a remote model.\<close>

datatype model = GenerativeModel pystr

text \<open>
  The remote service is outside the program: \<open>_model.generate_content(prompt,
  generation_config=..., safety_settings=...)\<close> is a parameter, which either raises
  (\<open>Inl\<close>) or returns a response (\<open>Inr\<close>).
\<close>

type_synonym provider =
  "model \<Rightarrow> pystr \<Rightarrow> generation_config \<Rightarrow> safety_setting list \<Rightarrow> exn + response"

section \<open>Effects\<close>

text \<open>
  The program's effects are calls of the user-interface framework and of the
  provider. A run yields the list of these calls in the order they are made.
\<close>

record download =
  dl_label :: pystr
  dl_data :: pystr
  dl_file_name :: pystr
  dl_mime :: pystr
  dl_key :: pystr

datatype event =
    Image pystr nat
  | Title pystr
  | Markdown pystr
  | Markdown_html pystr
  | Expander pystr
  | Text_area pystr pystr nat nat pystr
  | Columns "rat list"
  | Button pystr bool pystr
  | Spinner pystr
  | Subheader pystr
  | Container
  | Download_button download
  | Error pystr
  | Info pystr
  | Warning pystr
  | Json "pystr list"
  | Sidebar_info pystr
  | Sidebar_success pystr
  | Sidebar_warning pystr
  | Page_config pystr pystr pystr
  | Generate_content model pystr generation_config "safety_setting list"

section \<open>Story generation (\<open>generate_sgu_story\<close>)\<close>

definition SGU_CONTEXT :: pystr where
  "SGU_CONTEXT =
     [10] @ cp ''## SGU Campus Context '' @ [10, 10] @
     cp ''**Sanjay Ghodawat University (SGU)** is a large, modern State Private University spread ov'' @
     cp ''er **165 acres** on the **Kolhapur-Sangli Highway, Atigre, Kolhapur**. It'' @ [39] @
     cp ''s part of the diverse Sanjay Ghodawat Group, bringing a strong industrial connection.'' @
     [10, 10] @ cp ''**Key Academic Areas & Schools (likely in distinct buildings/blocks):**'' @
     [10] @
     cp ''* School of Engineering & Technology (housing departments like Aeronautical, Civil, Comput'' @
     cp ''er Science & Engineering (CSE), AI & Machine Learning (AI&ML), Electronics & Communication'' @
     cp '' (E&C))'' @ [10] @ cp ''* School of Computer Applications (BCA, MCA)'' @ [10] @
     cp ''* School of Commerce & Management (B.Com, BBA, MBA - including specializations like Busine'' @
     cp ''ss Analytics, Disaster Management)'' @ [10] @
     cp ''* School of Physical and Chemical Sciences (Physics - including Space Science/Nano Science'' @
     cp '', Chemistry)'' @ [10] @
     cp ''* School of Life Sciences (Medical Lab Technology, Food Science & Technology, Biotechnolog'' @
     cp ''y)'' @ [10] @ cp ''* School of Pharmaceutical Science (D.Pharm, B.Pharm, M.Pharm)'' @
     [10] @
     cp ''* School of Design (B.Des covering Fashion, Product, Interior, Communication, Animation, G'' @
     cp ''ame Design)'' @ [10] @ cp ''* School of Media (Journalism & Mass Communication)'' @ [10] @
     cp ''* School of Social Science (History, Geography, Political Science, English)'' @ [10] @
     cp ''* School of Legal Studies (Law) (BA LLB, BBA LLB, LLB)'' @ [10, 10] @
     cp ''**Specific Campus Facilities & Landmarks:**'' @ [10] @
     cp ''* **Central Library:** A key hub for studying and resources. '' @ [10] @
     cp ''* **Hostels:** Separate residential facilities for students.'' @ [10] @
     cp ''* **Sports Facilities:** Includes a **Stadium**, **Playgrounds**, courts, and a **Swimming'' @
     cp '' Pool**. '' @ [10] @
     cp ''* **Advanced Laboratories:** Sophisticated labs for various science and tech fields.'' @
     [10] @
     cp ''* **Specialized Centers:** High-End Simulation & Robotic Lab, Industry 4.0 C4i4 Lab, Cente'' @
     cp ''r for Space and Atmospheric Science (CSAS), TATA Technologies Centre, BOSCH Mechatronics L'' @
     cp ''ab.'' @ [10] @
     cp ''* **Auditorium:** For major events, gatherings, and maybe celebrity visits.'' @ [10] @
     cp ''* **Food Court / Canteen:** Social spots for meals and breaks.'' @ [10] @
     cp ''* **SGU Music Academy:** A dedicated place for musical activities.'' @ [10] @
     cp ''* **Star Local Mart:** An on-campus convenience store.'' @ [10] @
     cp ''* **Well-Equipped Classrooms & Sophisticated Computer Labs.**'' @ [10] @
     cp ''* **Green Spaces:** Gardens and pathways. '' @ [10] @ cp ''* **Parking Areas.**'' @
     [10, 10] @
     cp ''**Campus Vibe:** Focuses on **Project & Design Based Learning**, strong **Industry Connect'' @
     cp ''ions** (internships, placements with recruiters like TCS, Infosys, Capgemini, etc.), and a'' @
     cp ''ims for overall student development and character building. Has global partnerships (Study'' @
     cp '' Abroad programs with universities in USA, UK, Australia) and hosts events like convocatio'' @
     cp ''ns and potentially fests or celebrity interactions.'' @ [10]"

text \<open>
  The f-string \<open>full_prompt\<close>: three literal pieces around the two substitutions
  \<open>{SGU_CONTEXT}\<close> and \<open>{user_prompt}\<close>.
\<close>

definition prompt_head :: pystr where
  "prompt_head =
     [10] @ cp ''You are a creative storyteller. Write a short, engaging story (around 250'' @
     [8211] @ cp ''400 words)'' @ [10] @
     cp ''that takes place entirely on the campus of Sanjay Ghodawat University (SGU), Kolhapur.'' @
     [10] @
     cp ''You should explain whole story in simple english so that any age group can read the story '' @
     cp ''easily.'' @ [10, 10] @ cp ''**SGU Campus Details:**'' @ [10]"

definition prompt_middle :: pystr where
  "prompt_middle =
     [10, 10] @ cp ''**User'' @ [39] @ cp ''s Story Idea:**'' @ [10]"

definition prompt_tail :: pystr where
  "prompt_tail =
     [10, 10] @ cp ''**Instructions:**'' @ [10] @
     cp ''1. Make the story feel authentic to the SGU campus experience.'' @ [10] @
     cp ''2. Mention at least 2-3 specific SGU locations (e.g., Central Library, Food Court, School '' @
     cp ''of Technology building, Stadium, Star Local Mart, Robotic Lab).'' @ [10] @
     cp ''3. Ensure the story is appropriate for all audiences and positive in tone.'' @ [10] @
     cp ''4. Generate *only* the story text, using clear paragraphs. Do not add a title.'' @ [10] @
     cp ''5. Please make sure that story is easy to read by any age group.'' @ [10, 10] @
     cp ''**Story:**'' @ [10]"

definition full_prompt :: "pystr \<Rightarrow> pystr" where
  "full_prompt user_prompt =
     prompt_head @ SGU_CONTEXT @ prompt_middle @ user_prompt @ prompt_tail"

definition generation_config :: generation_config where
  "generation_config =
     \<lparr>temperature = 75 / 100, top_p = 85 / 100, top_k = 40, max_output_tokens = 2048\<rparr>"

definition safety_settings :: "safety_setting list" where
  "safety_settings =
     [\<lparr>category = cp ''HARM_CATEGORY_HARASSMENT'', threshold = cp ''BLOCK_MEDIUM_AND_ABOVE''\<rparr>,
      \<lparr>category = cp ''HARM_CATEGORY_HATE_SPEECH'', threshold = cp ''BLOCK_MEDIUM_AND_ABOVE''\<rparr>,
      \<lparr>category = cp ''HARM_CATEGORY_SEXUALLY_EXPLICIT'', threshold = cp ''BLOCK_MEDIUM_AND_ABOVE''\<rparr>,
      \<lparr>category = cp ''HARM_CATEGORY_DANGEROUS_CONTENT'', threshold = cp ''BLOCK_MEDIUM_AND_ABOVE''\<rparr>]"

text \<open>
  The statements of \<open>generate_sgu_story\<close> after the provider call all stand inside
  its \<open>try\<close>: an exception raised while the response is read ends the block as one
  raised by the call does. Each of them yields a value (\<open>Inr\<close>) or raises (\<open>Inl\<close>).
\<close>

text \<open>\<open>feedback = getattr(response, 'prompt_feedback', None)\<close>\<close>

definition getattr_prompt_feedback :: "response \<Rightarrow> exn + feedback option" where
  "getattr_prompt_feedback response =
     (case resp_prompt_feedback response of
        Missing \<Rightarrow> Inr None
      | Raises e \<Rightarrow> Inl e
      | Value f \<Rightarrow> Inr (Some f))"

text \<open>
  \<open>"".join(part.text for part in response.parts if hasattr(part, 'text'))\<close>: the
  first part whose text cannot be read ends the join with its exception; otherwise
  the texts of the parts that have one are concatenated in order.
  \<open>List.map_filter f xs\<close> is \<open>map (the \<circ> f) (filter (\<lambda>x. f x \<noteq> None) xs)\<close>.
\<close>

definition text_of_part :: "part \<Rightarrow> pystr option" where
  "text_of_part p = (case part_text p of Value s \<Rightarrow> Some s | Missing \<Rightarrow> None | Raises e \<Rightarrow> None)"

definition exception_of_part :: "part \<Rightarrow> exn option" where
  "exception_of_part p = (case part_text p of Raises e \<Rightarrow> Some e | Missing \<Rightarrow> None | Value s \<Rightarrow> None)"

definition join_part_texts :: "part list \<Rightarrow> exn + pystr" where
  "join_part_texts ps =
     (case List.map_filter exception_of_part ps of
        [] \<Rightarrow> Inr (concat (List.map_filter text_of_part ps))
      | e # es \<Rightarrow> Inl e)"

text \<open>
  The \<open>elif\<close> of the text extraction: \<open>hasattr(response, 'text') and response.text\<close>,
  then \<open>story_text = response.text\<close>; otherwise \<open>story_text\<close> stays \<open>None\<close>.
\<close>

definition direct_text :: "response \<Rightarrow> exn + pystr option" where
  "direct_text response =
     (case resp_text response of
        Missing \<Rightarrow> Inr None
      | Raises e \<Rightarrow> Inl e
      | Value s \<Rightarrow> if truthy_str s then Inr (Some s) else Inr None)"

text \<open>
  The text extraction: \<open>story_text = None\<close>, then the \<open>if\<close> on
  \<open>hasattr(response, 'parts') and response.parts\<close>, with the \<open>elif\<close> above.
\<close>

definition story_text_of :: "response \<Rightarrow> exn + pystr option" where
  "story_text_of response =
     (case resp_parts response of
        Missing \<Rightarrow> direct_text response
      | Raises e \<Rightarrow> Inl e
      | Value ps \<Rightarrow>
          if ps \<noteq> [] then
            (case join_part_texts ps of Inl e \<Rightarrow> Inl e | Inr s \<Rightarrow> Inr (Some s))
          else direct_text response)"

text \<open>
  The \<open>try\<close> block from the feedback to the \<open>return story_text, feedback\<close>.
\<close>

definition read_response :: "response \<Rightarrow> exn + (pystr option \<times> feedback option)" where
  "read_response response =
     (case getattr_prompt_feedback response of
        Inl e \<Rightarrow> Inl e
      | Inr feedback \<Rightarrow>
          (case story_text_of response of
             Inl e \<Rightarrow> Inl e
           | Inr story_text \<Rightarrow> Inr (story_text, feedback)))"

text \<open>
  \<open>generate_sgu_story(user_prompt, _model)\<close> returns the pair \<open>(story_text,
  feedback)\<close>; the model also returns the calls it made. A model handle is an
  object and so truthy; \<open>None\<close> is the only falsy \<open>_model\<close> (here \<open>the_model\<close>).
  The inner \<open>case\<close> is the \<open>try\<close> block, the provider call and the reading of its
  response; the outer one is its normal end and the \<open>except Exception as e\<close> clause.
\<close>

definition generate_sgu_story ::
  "provider \<Rightarrow> pystr \<Rightarrow> model option \<Rightarrow> event list \<times> (pystr option \<times> feedback option)" where
  "generate_sgu_story api user_prompt the_model =
     (case the_model of
        None \<Rightarrow> ([Error (cp ''Model not initialized.'')], (None, None))
      | Some m \<Rightarrow>
          (case (case api m (full_prompt user_prompt) generation_config safety_settings of
                   Inl e \<Rightarrow> Inl e
                 | Inr response \<Rightarrow> read_response response) of
             Inr (story_text, feedback) \<Rightarrow>
               ([Generate_content m (full_prompt user_prompt) generation_config safety_settings],
                (story_text, feedback))
           | Inl (Exception e) \<Rightarrow>
               ([Generate_content m (full_prompt user_prompt) generation_config safety_settings,
                 Error ([10060] @ cp '' API Error during generation: '' @ e),
                 Info (cp ''Check network, API key, or prompt complexity.'')],
                (None, None))))"

section \<open>Credential resolution (\<open>get_api_key\<close>)\<close>

text \<open>
  \<open>st.stop()\<close> raises the framework's stop signal, which derives from
  \<open>BaseException\<close>: no \<open>except Exception\<close> clause catches it, and the script run
  ends there. A function that can stop returns \<open>Stopped\<close> in place of a value.
\<close>

datatype 'a run = Returned 'a | Stopped

text \<open>
  The deployment's secret facility, as \<open>get_api_key\<close> probes it inside its
  \<open>try\<close>: the attribute \<open>st.secrets\<close> is missing, or reading it raises (no secrets
  file: the facility is unavailable), or it is a mapping. The process environment
  (\<open>os.getenv\<close>) is a mapping.
\<close>

datatype secrets = Secrets_missing | Secrets_raise exn | Secrets "pystr \<rightharpoonup> pystr"

type_synonym environ = "pystr \<rightharpoonup> pystr"

text \<open>
  The \<open>try\<close> block: the secret named \<open>GEMINI_API_KEY\<close> when
  \<open>hasattr(st, 'secrets') and "GEMINI_API_KEY" in st.secrets\<close>; an exception there
  is passed over silently.
\<close>

definition secret_key :: "secrets \<Rightarrow> pystr option" where
  "secret_key s =
     (case s of
        Secrets_missing \<Rightarrow> None
      | Secrets_raise e \<Rightarrow> None
      | Secrets m \<Rightarrow> m (cp ''GEMINI_API_KEY''))"

definition key_not_found :: pystr where
  "key_not_found =
     [10] @ cp ''    '' @ [128272] @ cp '' **Gemini API Key Not Found!**'' @ [10, 10] @
     cp ''    Please set your Gemini API key using one of the following methods:'' @ [10, 10] @
     cp ''    **1. Streamlit Cloud:**'' @ [10] @ cp ''       Add the following in your app'' @
     [39] @ cp ''s Secrets:'' @ [10] @ cp ''       '' @ [96, 96, 96] @ cp ''toml'' @ [10] @
     cp ''       GEMINI_API_KEY='' @ [34] @ cp ''YOUR_API_KEY'' @ [34, 10] @ cp ''       '' @
     [96, 96, 96, 10, 10] @ cp ''    **2. Local Development:**'' @ [10] @ cp ''       Create a '' @
     [96] @ cp ''.env'' @ [96] @ cp '' file and add:'' @ [10] @ cp ''       '' @ [96, 96, 96, 10] @
     cp ''       GEMINI_API_KEY=YOUR_API_KEY'' @ [10] @ cp ''       '' @ [96, 96, 96, 10] @
     cp ''    Get your key from [Google AI Studio](https://aistudio.google.com/).'' @ [10] @
     cp ''    ''"

definition get_api_key :: "secrets \<Rightarrow> environ \<Rightarrow> event list \<times> pystr run" where
  "get_api_key s environ =
     (case secret_key s of
        Some k \<Rightarrow>
          ([Sidebar_info ([128273] @ cp '' Using API Key from Streamlit secrets.'')], Returned k)
      | None \<Rightarrow>
          (let api_key = environ (cp ''GEMINI_API_KEY'') in
           if truthy_opt_str api_key
           then ([Sidebar_info ([128273] @ cp '' Using API Key from local environment variable.'')],
                 Returned (the api_key))
           else ([Error key_not_found], Stopped)))"

section \<open>Model selection (\<open>configure_gemini\<close>)\<close>

text \<open>One entry of \<open>genai.list_models()\<close>: \<open>m.name\<close> and \<open>m.supported_generation_methods\<close>.\<close>

record model_info =
  mi_name :: pystr
  mi_supported_generation_methods :: "pystr list"

text \<open>
  \<open>genai.configure(api_key=api_key)\<close> followed by \<open>genai.list_models()\<close>, both inside
  the \<open>try\<close> of \<open>configure_gemini\<close>: a parameter, which for the key either raises
  (\<open>Inl\<close>) or returns the provider's list of models (\<open>Inr\<close>).
\<close>

type_synonym listing = "pystr \<Rightarrow> exn + model_info list"

definition FREE_GEMINI_MODEL :: pystr where
  "FREE_GEMINI_MODEL = cp ''models/gemini-2.5-flash''"

definition fallback_model :: pystr where
  "fallback_model = cp ''models/gemini-pro''"

text \<open>
  \<open>[m.name for m in genai.list_models() if 'generateContent' in
  m.supported_generation_methods]\<close>
\<close>

definition available_models :: "model_info list \<Rightarrow> pystr list" where
  "available_models ms =
     map mi_name
       (filter (\<lambda>m. cp ''generateContent'' \<in> set (mi_supported_generation_methods m)) ms)"

definition configure_gemini :: "secrets \<Rightarrow> environ \<Rightarrow> listing \<Rightarrow> event list \<times> model option run" where
  "configure_gemini s environ list_models =
     (case get_api_key s environ of
        (evs, Stopped) \<Rightarrow> (evs, Stopped)
      | (evs, Returned api_key) \<Rightarrow>
          if \<not> truthy_str api_key then (evs, Returned None)
          else
            (case list_models api_key of
               Inl (Exception e) \<Rightarrow>
                 (evs @ [Error ([128549] @ cp '' Failed to configure Gemini: '' @ e)], Stopped)
             | Inr ms \<Rightarrow>
                 if FREE_GEMINI_MODEL \<in> set (available_models ms)
                 then (evs @ [Sidebar_success
                                ([9989] @ cp '' Using model: '' @ [96] @ FREE_GEMINI_MODEL @ [96])],
                       Returned (Some (GenerativeModel FREE_GEMINI_MODEL)))
                 else if fallback_model \<in> set (available_models ms)
                 then (evs @ [Sidebar_warning
                                ([9888, 65039] @ cp '' '' @ [96] @ FREE_GEMINI_MODEL @ [96] @
                                 cp '' not found. Falling back to '' @ [96] @ fallback_model @ [96] @
                                 cp ''.'')],
                       Returned (Some (GenerativeModel fallback_model)))
                 else (evs @
                       [Error ([10060] @ cp '' No valid Gemini models found for content generation.''),
                        Info (cp ''Available models supporting '' @ [39] @ cp ''generateContent'' @ [39] @ cp '':''),
                        Json (available_models ms)],
                       Stopped)))"

section \<open>The download's timestamp (\<open>time.strftime\<close>)\<close>

text \<open>
  \<open>time.strftime('%Y%m%d_%H%M%S')\<close> formats the local time of the call. The clock
  is a parameter: the fields of \<open>time.localtime()\<close> the format reads. \<open>%Y\<close> is the
  year in decimal, and \<open>%m\<close>, \<open>%d\<close>, \<open>%H\<close>, \<open>%M\<close>, \<open>%S\<close> are decimal numbers
  padded with a zero to two digits.
\<close>

record struct_time =
  tm_year :: nat
  tm_mon :: nat
  tm_mday :: nat
  tm_hour :: nat
  tm_min :: nat
  tm_sec :: nat

fun decimal :: "nat \<Rightarrow> pystr" where
  "decimal n = (if n < 10 then [48 + n] else decimal (n div 10) @ [48 + n mod 10])"

declare decimal.simps [simp del]

definition pad2 :: "nat \<Rightarrow> pystr" where
  "pad2 n = (if n < 10 then 48 # decimal n else decimal n)"

definition strftime_Ymd_HMS :: "struct_time \<Rightarrow> pystr" where
  "strftime_Ymd_HMS t =
     decimal (tm_year t) @ pad2 (tm_mon t) @ pad2 (tm_mday t) @ cp ''_'' @
     pad2 (tm_hour t) @ pad2 (tm_min t) @ pad2 (tm_sec t)"

text \<open>
  The range of the fields of a local time (\<open>tm_sec\<close> up to 61, for leap seconds),
  with a year of four digits.
\<close>

definition valid_time :: "struct_time \<Rightarrow> bool" where
  "valid_time t \<longleftrightarrow>
     1000 \<le> tm_year t \<and> tm_year t \<le> 9999 \<and> 1 \<le> tm_mon t \<and> tm_mon t \<le> 12 \<and>
     1 \<le> tm_mday t \<and> tm_mday t \<le> 31 \<and> tm_hour t \<le> 23 \<and> tm_min t \<le> 59 \<and> tm_sec t \<le> 61"

section \<open>The page (\<open>main\<close>)\<close>

text \<open>Truthiness of \<open>feedback\<close>: \<open>None\<close> is falsy, an object decides for itself.\<close>

definition truthy_feedback :: "feedback option \<Rightarrow> bool" where
  "truthy_feedback fb = (case fb of None \<Rightarrow> False | Some f \<Rightarrow> fb_truthy f)"

text \<open>\<open>feedback and hasattr(feedback, 'block_reason')\<close>\<close>

definition feedback_has_block_reason :: "feedback option \<Rightarrow> bool" where
  "feedback_has_block_reason fb =
     (case fb of None \<Rightarrow> False | Some f \<Rightarrow> fb_truthy f \<and> fb_block_reason f \<noteq> None)"

text \<open>
  The result display of \<open>main\<close> (\<open>if story_text: ... elif ... elif ... else\<close>),
  with the clock reading \<open>now\<close> that \<open>time.strftime\<close> formats in the first branch.
\<close>

definition display_result :: "struct_time \<Rightarrow> pystr option \<Rightarrow> feedback option \<Rightarrow> event list" where
  "display_result now story_text feedback =
     (if truthy_opt_str story_text then
        (let timestamp = strftime_Ymd_HMS now in
         [Markdown (cp ''---''),
          Subheader ([128220] @ cp '' Your SGU Story:''),
          Container,
          Markdown (the story_text),
          Download_button
            \<lparr>dl_label = [128229] @ cp '' Download Story (.txt)'',
             dl_data = the story_text,
             dl_file_name = cp ''sgu_story_'' @ timestamp @ cp ''.txt'',
             dl_mime = cp ''text/plain'',
             dl_key = cp ''download_'' @ timestamp\<rparr>])
      else if feedback_has_block_reason feedback then
        [Error ([128683] @ cp '' Story generation was blocked due to safety settings.''),
         Info (cp ''Reason: '' @ [96] @ br_name (the (fb_block_reason (the feedback))) @ [96]),
         Warning (cp ''Please try rephrasing your prompt to be clearer and avoid sensitive topics.'')]
      else if \<not> truthy_opt_str story_text \<and> \<not> truthy_feedback feedback then
        []
      else
        [Warning ([9888, 65039] @
                 cp '' No story was generated. This might be due to the prompt or API issues. Please try again o'' @
                 cp ''r rephrase.'')])"

definition story_ideas :: pystr where
  "story_ideas =
     [10] @
     cp ''        * A student makes an unexpected friend while studying late in the **Central Librar'' @
     cp ''y**.'' @ [10] @
     cp ''        * Two rivals from the **School of Technology** become partners during a project in'' @
     cp '' the **Robotic Lab**.'' @ [10] @
     cp ''        * A shy musician finds courage to perform at the **SGU Music Academy**.'' @ [10] @
     cp ''        * A group discussion over snacks at the **Food Court** sparks a brilliant idea.'' @
     [10] @
     cp ''        * Finding something unusual near the **Stadium** during an evening walk.'' @
     [10] @ cp ''        * A chance encounter at the **Star Local Mart**.'' @ [10] @ cp ''        ''"

text \<open>
  \<open>main()\<close> reads two values from the page: the content of the text area
  (\<open>user_prompt\<close>) and the return value of the button (\<open>clicked\<close>). Both are
  parameters, as are the provider, the clock and the global \<open>model\<close>.
  \<open>main_widgets\<close> is the first part of \<open>main\<close>, from the logo to the button,
  whose \<open>disabled\<close> argument is \<open>not user_prompt.strip()\<close>.
\<close>

definition main_widgets :: "pystr \<Rightarrow> event list" where
  "main_widgets user_prompt =
     [Image (cp ''images/SGU_Logo.jpg'') 550,
      Title ([128214] @ cp '' SGU Story Weaver '' @ [10024]),
      Markdown (cp ''Weave a tale set right here on the **Sanjay Ghodawat University** campus!''),
      Expander ([128161] @ cp '' Need inspiration? Click for story ideas!''),
      Markdown story_ideas,
      Text_area (cp ''**What should your SGU story be about?** (Be descriptive!)'')
        (cp ''e.g., A first-year student feeling nervous on their way to the School of Engineering & Tec'' @
         cp ''hnology...'')
        120 500 (cp ''user_story_prompt''),
      Columns [1, 15 / 10, 1],
      Button ([10024] @ cp '' Weave My Story!'') (\<not> truthy_str (strip user_prompt)) (cp ''generate_button'')]"

definition main :: "provider \<Rightarrow> struct_time \<Rightarrow> model option \<Rightarrow> pystr \<Rightarrow> bool \<Rightarrow> event list" where
  "main api now the_model user_prompt clicked =
     main_widgets user_prompt @
     (if clicked \<and> truthy_str (strip user_prompt) then
        (case generate_sgu_story api (strip user_prompt) the_model of
           (evs, (story_text, feedback)) \<Rightarrow>
             Spinner ([9997, 65039] @ cp '' Gemini is crafting your SGU story... Please wait.'') #
             evs @ display_result now story_text feedback)
      else [])"

section \<open>The footer and the script\<close>

definition footer_html :: pystr where
  "footer_html =
     [10] @ cp ''        <div style='' @ [39] @
     cp ''text-align: center; font-size: 0.85em; color: #777;'' @ [39] @ cp ''>'' @ [10] @
     cp ''            <p>Powered by Google Gemini | Built with Streamlit</p>'' @ [10] @
     cp ''            <p>'' @ [10] @ cp ''               <a href='' @ [34] @
     cp ''https://github.com/GauravPatil04/StoryMaker'' @ [34] @ cp '' target='' @ [34] @
     cp ''_blank'' @ [34] @ cp '' style='' @ [34] @ cp ''color: black;'' @ [34] @
     cp ''>View on GitHub</a> </p>'' @ [10] @ cp ''        </div>'' @ [10] @ cp ''        ''"

definition display_footer :: "event list" where
  "display_footer = [Markdown (cp ''---''), Markdown_html footer_html]"

text \<open>
  The script from top to bottom: the page configuration, \<open>model =
  configure_gemini()\<close>, and the guarded run of \<open>main()\<close> and \<open>display_footer()\<close>.
\<close>

definition script ::
  "secrets \<Rightarrow> environ \<Rightarrow> listing \<Rightarrow> provider \<Rightarrow> struct_time \<Rightarrow> pystr \<Rightarrow> bool \<Rightarrow> event list \<times> unit run" where
  "script s environ list_models api now user_prompt clicked =
     (case configure_gemini s environ list_models of
        (evs, Stopped) \<Rightarrow> (Page_config (cp ''SGU Story Weaver'') ([128214]) (cp ''centered'') # evs, Stopped)
      | (evs, Returned the_model) \<Rightarrow>
          (case the_model of
             Some m \<Rightarrow>
               (Page_config (cp ''SGU Story Weaver'') ([128214]) (cp ''centered'') # evs @
                main api now the_model user_prompt clicked @ display_footer,
                Returned ())
           | None \<Rightarrow>
               (Page_config (cp ''SGU Story Weaver'') ([128214]) (cp ''centered'') # evs @
                [Warning ([10060] @ cp '' Cannot start app '' @ [8212] @ cp '' AI model failed to initialize.'')],
                Returned ())))"

section \<open>The specification's notions\<close>

text \<open>
  The specification's wording of the first normalization step, "concatenate the text
  of every part that carries text, in sequence order", to compare
  \<open>join_part_texts\<close> with.
\<close>

fun spec_concat_part_texts :: "part list \<Rightarrow> pystr" where
  "spec_concat_part_texts [] = []"
| "spec_concat_part_texts (p # ps) =
     (case part_text p of
        Value t \<Rightarrow> t @ spec_concat_part_texts ps
      | Missing \<Rightarrow> spec_concat_part_texts ps
      | Raises e \<Rightarrow> spec_concat_part_texts ps)"

text \<open>
  The specification's file name pattern \<open>sgu_story_\d{8}_\d{6}\.txt\<close>, matched
  against the whole name: ten fixed characters, eight digits, an underscore, six
  digits and the extension, 29 characters in all.
\<close>

definition is_digit :: "nat \<Rightarrow> bool" where
  "is_digit c \<longleftrightarrow> 48 \<le> c \<and> c \<le> 57"

definition matches_file_name_pattern :: "pystr \<Rightarrow> bool" where
  "matches_file_name_pattern s \<longleftrightarrow>
     length s = 29 \<and> take 10 s = cp ''sgu_story_'' \<and> list_all is_digit (take 8 (drop 10 s)) \<and>
     take 1 (drop 18 s) = cp ''_'' \<and> list_all is_digit (take 6 (drop 19 s)) \<and>
     drop 25 s = cp ''.txt''"

text \<open>A string that is empty or consists only of whitespace.\<close>

definition blank :: "pystr \<Rightarrow> bool" where
  "blank s \<longleftrightarrow> list_all py_isspace s"

section \<open>Response normalization\<close>

lemma no_exception_of_parts:
  "\<forall>p\<in>set ps. \<forall>e. part_text p \<noteq> Raises e \<Longrightarrow> List.map_filter exception_of_part ps = []"
  by (induction ps) (auto simp add: exception_of_part_def split: attr.splits)

lemma some_exception_of_parts:
  "\<exists>p\<in>set ps. \<exists>e. part_text p = Raises e \<Longrightarrow> List.map_filter exception_of_part ps \<noteq> []"
  by (induction ps) (auto simp add: exception_of_part_def split: attr.splits)

lemma concat_texts_spec: "concat (List.map_filter text_of_part ps) = spec_concat_part_texts ps"
  by (induction ps) (simp_all add: text_of_part_def split: attr.split)

lemma join_part_texts_spec:
  "\<forall>p\<in>set ps. \<forall>e. part_text p \<noteq> Raises e \<Longrightarrow> join_part_texts ps = Inr (spec_concat_part_texts ps)"
  by (simp add: join_part_texts_def no_exception_of_parts concat_texts_spec)

lemma join_part_texts_raises:
  "\<exists>p\<in>set ps. \<exists>e. part_text p = Raises e \<Longrightarrow> \<exists>e. join_part_texts ps = Inl e"
  using some_exception_of_parts [of ps]
  by (auto simp add: join_part_texts_def split: list.splits)

lemma story_text_of_parts:
  "resp_parts r = Value ps \<Longrightarrow> ps \<noteq> [] \<Longrightarrow> \<forall>p\<in>set ps. \<forall>e. part_text p \<noteq> Raises e \<Longrightarrow>
   story_text_of r = Inr (Some (spec_concat_part_texts ps))"
  by (simp add: story_text_of_def join_part_texts_spec)

lemma story_text_of_text:
  "resp_parts r = Missing \<or> resp_parts r = Value [] \<Longrightarrow> resp_text r = Value t \<Longrightarrow> t \<noteq> [] \<Longrightarrow>
   story_text_of r = Inr (Some t)"
  by (auto simp add: story_text_of_def direct_text_def truthy_str_def)

lemma story_text_of_absent:
  "resp_parts r = Missing \<or> resp_parts r = Value [] \<Longrightarrow> resp_text r = Missing \<or> resp_text r = Value [] \<Longrightarrow>
   story_text_of r = Inr None"
  by (auto simp add: story_text_of_def direct_text_def truthy_str_def)

lemma story_text_of_raises:
  "(\<exists>e. resp_parts r = Raises e) \<or>
   (\<exists>ps. resp_parts r = Value ps \<and> ps \<noteq> [] \<and> (\<exists>p\<in>set ps. \<exists>e. part_text p = Raises e)) \<or>
   ((resp_parts r = Missing \<or> resp_parts r = Value []) \<and> (\<exists>e. resp_text r = Raises e)) \<Longrightarrow>
   \<exists>e. story_text_of r = Inl e"
proof (elim disjE exE conjE)
  fix e
  assume "resp_parts r = Raises e"
  then show ?thesis
    by (simp add: story_text_of_def)
next
  fix ps
  assume p: "resp_parts r = Value ps" "ps \<noteq> []" and "\<exists>p\<in>set ps. \<exists>e. part_text p = Raises e"
  then obtain e where "join_part_texts ps = Inl e"
    using join_part_texts_raises by blast
  then show ?thesis
    using p by (simp add: story_text_of_def)
next
  fix e
  assume "resp_parts r = Missing" and "resp_text r = Raises e"
  then show ?thesis
    by (simp add: story_text_of_def direct_text_def)
next
  fix e
  assume "resp_parts r = Value []" and "resp_text r = Raises e"
  then show ?thesis
    by (simp add: story_text_of_def direct_text_def)
qed

lemma feedback_read:
  "\<forall>e. resp_prompt_feedback r \<noteq> Raises e \<Longrightarrow>
   getattr_prompt_feedback r =
     Inr (case resp_prompt_feedback r of Value f \<Rightarrow> Some f | Missing \<Rightarrow> None | Raises e \<Rightarrow> None)"
  by (simp add: getattr_prompt_feedback_def split: attr.split)

lemma read_response_text:
  "\<forall>e. resp_prompt_feedback r \<noteq> Raises e \<Longrightarrow> story_text_of r = Inr t \<Longrightarrow>
   read_response r =
     Inr (t, case resp_prompt_feedback r of Value f \<Rightarrow> Some f | Missing \<Rightarrow> None | Raises e \<Rightarrow> None)"
  by (simp add: read_response_def feedback_read)

lemma read_response_raises:
  "(\<exists>e. resp_prompt_feedback r = Raises e) \<or> (\<exists>e. story_text_of r = Inl e) \<Longrightarrow>
   \<exists>e. read_response r = Inl e"
  by (auto simp add: read_response_def getattr_prompt_feedback_def split: attr.splits sum.splits)

lemma generate_returns_response:
  "api m (full_prompt u) generation_config safety_settings = Inr r \<Longrightarrow> read_response r = Inr (t, fb) \<Longrightarrow>
   generate_sgu_story api u (Some m) =
     ([Generate_content m (full_prompt u) generation_config safety_settings], (t, fb))"
  by (simp add: generate_sgu_story_def)

lemma generate_reading_raises:
  "api m (full_prompt u) generation_config safety_settings = Inr r \<Longrightarrow>
   read_response r = Inl (Exception e) \<Longrightarrow>
   generate_sgu_story api u (Some m) =
     ([Generate_content m (full_prompt u) generation_config safety_settings,
       Error ([10060] @ cp '' API Error during generation: '' @ e),
       Info (cp ''Check network, API key, or prompt complexity.'')],
      (None, None))"
  by (simp add: generate_sgu_story_def)

lemma generate_raises:
  "api m (full_prompt u) generation_config safety_settings = Inl (Exception e) \<Longrightarrow>
   generate_sgu_story api u (Some m) =
     ([Generate_content m (full_prompt u) generation_config safety_settings,
       Error ([10060] @ cp '' API Error during generation: '' @ e),
       Info (cp ''Check network, API key, or prompt complexity.'')],
      (None, None))"
  by (simp add: generate_sgu_story_def)

text \<open>
  Claim C1. Whenever the provider answers the call of \<open>generate_sgu_story\<close> with a
  response \<open>r\<close>, the text the function returns follows the three steps in order: if
  \<open>r\<close> exposes a non-empty sequence of parts, it is the concatenation, in sequence
  order, of the text of every part that carries text; else if \<open>r\<close> exposes a
  non-empty direct text, it is that text; else it is absent (\<open>None\<close>). In particular
  the parts "Hello " and "world", each carrying text, yield "Hello world". These are
  the responses whose attributes can be read; when reading the feedback, the parts, a
  part's text, or (the parts being absent or empty) the direct text raises, the text
  is absent as well.
\<close>

theorem response_normalization:
  assumes "api m (full_prompt u) generation_config safety_settings = Inr r"
  shows
    "(\<forall>ps. (\<forall>e. resp_prompt_feedback r \<noteq> Raises e) \<longrightarrow> resp_parts r = Value ps \<longrightarrow> ps \<noteq> [] \<longrightarrow>
        (\<forall>p\<in>set ps. \<forall>e. part_text p \<noteq> Raises e) \<longrightarrow>
        fst (snd (generate_sgu_story api u (Some m))) = Some (spec_concat_part_texts ps)) \<and>
     (\<forall>t. (\<forall>e. resp_prompt_feedback r \<noteq> Raises e) \<longrightarrow>
        resp_parts r = Missing \<or> resp_parts r = Value [] \<longrightarrow> resp_text r = Value t \<longrightarrow> t \<noteq> [] \<longrightarrow>
        fst (snd (generate_sgu_story api u (Some m))) = Some t) \<and>
     ((\<forall>e. resp_prompt_feedback r \<noteq> Raises e) \<longrightarrow>
        resp_parts r = Missing \<or> resp_parts r = Value [] \<longrightarrow>
        resp_text r = Missing \<or> resp_text r = Value [] \<longrightarrow>
        fst (snd (generate_sgu_story api u (Some m))) = None) \<and>
     ((\<forall>e. resp_prompt_feedback r \<noteq> Raises e) \<longrightarrow>
        resp_parts r = Value [\<lparr>part_text = Value (cp ''Hello '')\<rparr>, \<lparr>part_text = Value (cp ''world'')\<rparr>] \<longrightarrow>
        fst (snd (generate_sgu_story api u (Some m))) = Some (cp ''Hello world'')) \<and>
     ((\<exists>e. resp_prompt_feedback r = Raises e) \<or> (\<exists>e. resp_parts r = Raises e) \<or>
      (\<exists>ps. resp_parts r = Value ps \<and> ps \<noteq> [] \<and> (\<exists>p\<in>set ps. \<exists>e. part_text p = Raises e)) \<or>
      ((resp_parts r = Missing \<or> resp_parts r = Value []) \<and> (\<exists>e. resp_text r = Raises e)) \<longrightarrow>
        fst (snd (generate_sgu_story api u (Some m))) = None)"
proof -
  have g: "fst (snd (generate_sgu_story api u (Some m))) = t"
    if "\<forall>e. resp_prompt_feedback r \<noteq> Raises e" and "story_text_of r = Inr t" for t
    using generate_returns_response [of api m u r, OF assms read_response_text [OF that]] by simp
  have hello:
    "spec_concat_part_texts [\<lparr>part_text = Value (cp ''Hello '')\<rparr>, \<lparr>part_text = Value (cp ''world'')\<rparr>] =
     cp ''Hello world''"
    by (simp add: cp_def)
  have 1: "fst (snd (generate_sgu_story api u (Some m))) = Some (spec_concat_part_texts ps)"
    if "\<forall>e. resp_prompt_feedback r \<noteq> Raises e" and "resp_parts r = Value ps" and "ps \<noteq> []"
      and "\<forall>p\<in>set ps. \<forall>e. part_text p \<noteq> Raises e" for ps
    using that by (simp add: g story_text_of_parts)
  have 2: "fst (snd (generate_sgu_story api u (Some m))) = Some t"
    if "\<forall>e. resp_prompt_feedback r \<noteq> Raises e" and "resp_parts r = Missing \<or> resp_parts r = Value []"
      and "resp_text r = Value t" and "t \<noteq> []" for t
    using that by (simp add: g story_text_of_text)
  have 3: "fst (snd (generate_sgu_story api u (Some m))) = None"
    if "\<forall>e. resp_prompt_feedback r \<noteq> Raises e" and "resp_parts r = Missing \<or> resp_parts r = Value []"
      and "resp_text r = Missing \<or> resp_text r = Value []"
    using that by (simp add: g story_text_of_absent)
  have 4: "fst (snd (generate_sgu_story api u (Some m))) = Some (cp ''Hello world'')"
    if "\<forall>e. resp_prompt_feedback r \<noteq> Raises e"
      and "resp_parts r = Value [\<lparr>part_text = Value (cp ''Hello '')\<rparr>, \<lparr>part_text = Value (cp ''world'')\<rparr>]"
    using 1 [OF that] hello by simp
  have 5: "fst (snd (generate_sgu_story api u (Some m))) = None"
    if "(\<exists>e. resp_prompt_feedback r = Raises e) \<or> (\<exists>e. resp_parts r = Raises e) \<or>
      (\<exists>ps. resp_parts r = Value ps \<and> ps \<noteq> [] \<and> (\<exists>p\<in>set ps. \<exists>e. part_text p = Raises e)) \<or>
      ((resp_parts r = Missing \<or> resp_parts r = Value []) \<and> (\<exists>e. resp_text r = Raises e))"
  proof -
    have "(\<exists>e. resp_prompt_feedback r = Raises e) \<or> (\<exists>e. story_text_of r = Inl e)"
      using that story_text_of_raises [of r] by blast
    then obtain x where "read_response r = Inl x"
      using read_response_raises by blast
    then obtain e where "read_response r = Inl (Exception e)"
      by (cases x) simp
    then show ?thesis
      using generate_reading_raises [of api m u r, OF assms] by simp
  qed
  from 1 2 3 4 5 show ?thesis
    by blast
qed

theorem response_normalization_witness:
  "fst (snd (generate_sgu_story
       (\<lambda>m p c s. Inr \<lparr>resp_parts = Value [\<lparr>part_text = Value (cp ''Hello '')\<rparr>,
                                             \<lparr>part_text = Value (cp ''world'')\<rparr>],
                         resp_text = Value (cp ''unused''), resp_prompt_feedback = Missing\<rparr>)
       (cp ''idea'') (Some (GenerativeModel FREE_GEMINI_MODEL)))) = Some (cp ''Hello world'') \<and>
   fst (snd (generate_sgu_story
       (\<lambda>m p c s. Inr \<lparr>resp_parts = Value [\<lparr>part_text = Value (cp ''a'')\<rparr>, \<lparr>part_text = Missing\<rparr>,
                                             \<lparr>part_text = Value (cp ''b'')\<rparr>],
                         resp_text = Missing, resp_prompt_feedback = Missing\<rparr>)
       (cp ''idea'') (Some (GenerativeModel FREE_GEMINI_MODEL)))) = Some (cp ''ab'') \<and>
   fst (snd (generate_sgu_story
       (\<lambda>m p c s. Inr \<lparr>resp_parts = Value [], resp_text = Value (cp ''Once upon a time''),
                         resp_prompt_feedback = Missing\<rparr>)
       (cp ''idea'') (Some (GenerativeModel FREE_GEMINI_MODEL)))) = Some (cp ''Once upon a time'') \<and>
   fst (snd (generate_sgu_story
       (\<lambda>m p c s. Inr \<lparr>resp_parts = Missing, resp_text = Value [], resp_prompt_feedback = Missing\<rparr>)
       (cp ''idea'') (Some (GenerativeModel FREE_GEMINI_MODEL)))) = None \<and>
   fst (snd (generate_sgu_story
       (\<lambda>m p c s. Inr \<lparr>resp_parts = Value [], resp_text = Raises (Exception (cp ''no valid Part'')),
                         resp_prompt_feedback = Missing\<rparr>)
       (cp ''idea'') (Some (GenerativeModel FREE_GEMINI_MODEL)))) = None"
proof (intro conjI)
  let ?m = "GenerativeModel FREE_GEMINI_MODEL"
  let ?r0 = "\<lparr>resp_parts = Value [\<lparr>part_text = Value (cp ''Hello '')\<rparr>, \<lparr>part_text = Value (cp ''world'')\<rparr>],
              resp_text = Value (cp ''unused''), resp_prompt_feedback = Missing :: feedback attr\<rparr>"
  let ?r1 = "\<lparr>resp_parts = Value [\<lparr>part_text = Value (cp ''a'')\<rparr>, \<lparr>part_text = Missing\<rparr>,
                                  \<lparr>part_text = Value (cp ''b'')\<rparr>],
              resp_text = Missing, resp_prompt_feedback = Missing :: feedback attr\<rparr>"
  let ?r2 = "\<lparr>resp_parts = Value [], resp_text = Value (cp ''Once upon a time''),
              resp_prompt_feedback = Missing :: feedback attr\<rparr>"
  let ?r3 = "\<lparr>resp_parts = Missing, resp_text = Value [], resp_prompt_feedback = Missing :: feedback attr\<rparr>"
  let ?r4 = "\<lparr>resp_parts = Value [], resp_text = Raises (Exception (cp ''no valid Part'')),
              resp_prompt_feedback = Missing :: feedback attr\<rparr>"
  show "fst (snd (generate_sgu_story (\<lambda>m p c s. Inr ?r0) (cp ''idea'') (Some ?m))) = Some (cp ''Hello world'')"
    using response_normalization [of "\<lambda>m p c s. Inr ?r0" ?m "cp ''idea''" ?r0]
    by (simp add: cp_def)
  show "fst (snd (generate_sgu_story (\<lambda>m p c s. Inr ?r1) (cp ''idea'') (Some ?m))) = Some (cp ''ab'')"
    using response_normalization [of "\<lambda>m p c s. Inr ?r1" ?m "cp ''idea''" ?r1]
    by (simp add: cp_def)
  show "fst (snd (generate_sgu_story (\<lambda>m p c s. Inr ?r2) (cp ''idea'') (Some ?m))) = Some (cp ''Once upon a time'')"
    using response_normalization [of "\<lambda>m p c s. Inr ?r2" ?m "cp ''idea''" ?r2]
    by (simp add: cp_def)
  show "fst (snd (generate_sgu_story (\<lambda>m p c s. Inr ?r3) (cp ''idea'') (Some ?m))) = None"
    using response_normalization [of "\<lambda>m p c s. Inr ?r3" ?m "cp ''idea''" ?r3]
    by simp
  show "fst (snd (generate_sgu_story (\<lambda>m p c s. Inr ?r4) (cp ''idea'') (Some ?m))) = None"
    using response_normalization [of "\<lambda>m p c s. Inr ?r4" ?m "cp ''idea''" ?r4]
    by simp
qed

section \<open>Outcome classification\<close>

lemma display_story:
  "s \<noteq> [] \<Longrightarrow>
   display_result now (Some s) fb =
     [Markdown (cp ''---''),
      Subheader ([128220] @ cp '' Your SGU Story:''),
      Container,
      Markdown s,
      Download_button
        \<lparr>dl_label = [128229] @ cp '' Download Story (.txt)'',
         dl_data = s,
         dl_file_name = cp ''sgu_story_'' @ strftime_Ymd_HMS now @ cp ''.txt'',
         dl_mime = cp ''text/plain'',
         dl_key = cp ''download_'' @ strftime_Ymd_HMS now\<rparr>]"
  by (simp add: display_result_def truthy_opt_str_def truthy_str_def Let_def)

lemma display_blocked:
  "\<not> truthy_opt_str story_text \<Longrightarrow> fb_truthy f \<Longrightarrow> fb_block_reason f = Some br \<Longrightarrow>
   display_result now story_text (Some f) =
     [Error ([128683] @ cp '' Story generation was blocked due to safety settings.''),
      Info (cp ''Reason: '' @ [96] @ br_name br @ [96]),
      Warning (cp ''Please try rephrasing your prompt to be clearer and avoid sensitive topics.'')]"
  by (simp add: display_result_def feedback_has_block_reason_def)

lemma display_nothing:
  "\<not> truthy_opt_str story_text \<Longrightarrow> \<not> truthy_feedback fb \<Longrightarrow> display_result now story_text fb = []"
  by (auto simp add: display_result_def feedback_has_block_reason_def truthy_feedback_def
      split: option.splits)

lemma display_no_story:
  "\<not> truthy_opt_str story_text \<Longrightarrow> fb_truthy f \<Longrightarrow> fb_block_reason f = None \<Longrightarrow>
   display_result now story_text (Some f) =
     [Warning ([9888, 65039] @
        cp '' No story was generated. This might be due to the prompt or API issues. Please try again o'' @
        cp ''r rephrase.'')]"
  by (simp add: display_result_def feedback_has_block_reason_def truthy_feedback_def)

text \<open>
  Claim C2. For every pair (text, feedback) that the generation step returns, the
  result display of \<open>main\<close> selects one of four outcomes, in this order of
  priority. Presence is what the program tests, by truthiness: a text is present
  when it is a non-empty string, a feedback is present when it is an object that is
  truthy.
  \<^enum> Text present: the story is rendered and a download of it is offered.
  \<^enum> Text absent, feedback present and carrying a block reason: the
    blocked-by-safety message, with the name of the reason.
  \<^enum> Text absent and feedback absent: nothing further is shown.
  \<^enum> Text absent, feedback present without a block reason: the generic
    no-story-generated message.
  The four conditions exclude each other and cover every pair, and the four lists of
  calls differ, so each pair gets exactly one outcome.
\<close>

theorem outcome_classification:
  "(\<forall>s. story_text = Some s \<longrightarrow> s \<noteq> [] \<longrightarrow>
      display_result now story_text fb =
        [Markdown (cp ''---''),
         Subheader ([128220] @ cp '' Your SGU Story:''),
         Container,
         Markdown s,
         Download_button
           \<lparr>dl_label = [128229] @ cp '' Download Story (.txt)'',
            dl_data = s,
            dl_file_name = cp ''sgu_story_'' @ strftime_Ymd_HMS now @ cp ''.txt'',
            dl_mime = cp ''text/plain'',
            dl_key = cp ''download_'' @ strftime_Ymd_HMS now\<rparr>]) \<and>
   (\<forall>f br. \<not> truthy_opt_str story_text \<longrightarrow> fb = Some f \<longrightarrow> fb_truthy f \<longrightarrow> fb_block_reason f = Some br \<longrightarrow>
      display_result now story_text fb =
        [Error ([128683] @ cp '' Story generation was blocked due to safety settings.''),
         Info (cp ''Reason: '' @ [96] @ br_name br @ [96]),
         Warning (cp ''Please try rephrasing your prompt to be clearer and avoid sensitive topics.'')]) \<and>
   (\<not> truthy_opt_str story_text \<longrightarrow> \<not> truthy_feedback fb \<longrightarrow> display_result now story_text fb = []) \<and>
   (\<forall>f. \<not> truthy_opt_str story_text \<longrightarrow> fb = Some f \<longrightarrow> fb_truthy f \<longrightarrow> fb_block_reason f = None \<longrightarrow>
      display_result now story_text fb =
        [Warning ([9888, 65039] @
           cp '' No story was generated. This might be due to the prompt or API issues. Please try again o'' @
           cp ''r rephrase.'')])"
  using display_story [of _ now fb] display_blocked [of story_text _ _ now] display_nothing [of story_text fb now]
    display_no_story [of story_text _ now]
  by (intro conjI allI impI) simp_all

theorem outcome_classification_witness:
  "display_result \<lparr>tm_year = 2024, tm_mon = 3, tm_mday = 9, tm_hour = 14, tm_min = 5, tm_sec = 7\<rparr>
     (Some (cp ''A story.'')) None =
     [Markdown (cp ''---''),
      Subheader ([128220] @ cp '' Your SGU Story:''),
      Container,
      Markdown (cp ''A story.''),
      Download_button
        \<lparr>dl_label = [128229] @ cp '' Download Story (.txt)'',
         dl_data = cp ''A story.'',
         dl_file_name = cp ''sgu_story_20240309_140507.txt'',
         dl_mime = cp ''text/plain'',
         dl_key = cp ''download_20240309_140507''\<rparr>] \<and>
   display_result \<lparr>tm_year = 2024, tm_mon = 3, tm_mday = 9, tm_hour = 14, tm_min = 5, tm_sec = 7\<rparr>
     None (Some \<lparr>fb_truthy = True, fb_block_reason = Some \<lparr>br_name = cp ''OTHER''\<rparr>\<rparr>) =
     [Error ([128683] @ cp '' Story generation was blocked due to safety settings.''),
      Info (cp ''Reason: '' @ [96] @ cp ''OTHER'' @ [96]),
      Warning (cp ''Please try rephrasing your prompt to be clearer and avoid sensitive topics.'')] \<and>
   display_result \<lparr>tm_year = 2024, tm_mon = 3, tm_mday = 9, tm_hour = 14, tm_min = 5, tm_sec = 7\<rparr>
     None None = [] \<and>
   display_result \<lparr>tm_year = 2024, tm_mon = 3, tm_mday = 9, tm_hour = 14, tm_min = 5, tm_sec = 7\<rparr>
     (Some []) (Some \<lparr>fb_truthy = True, fb_block_reason = None\<rparr>) =
     [Warning ([9888, 65039] @
        cp '' No story was generated. This might be due to the prompt or API issues. Please try again o'' @
        cp ''r rephrase.'')]"
proof (intro conjI)
  let ?now = "\<lparr>tm_year = 2024, tm_mon = 3, tm_mday = 9, tm_hour = 14, tm_min = 5, tm_sec = 7\<rparr>"
  have ts: "strftime_Ymd_HMS ?now = cp ''20240309_140507''"
    by (simp add: strftime_Ymd_HMS_def pad2_def decimal.simps cp_def)
  show "display_result ?now (Some (cp ''A story.'')) None =
     [Markdown (cp ''---''),
      Subheader ([128220] @ cp '' Your SGU Story:''),
      Container,
      Markdown (cp ''A story.''),
      Download_button
        \<lparr>dl_label = [128229] @ cp '' Download Story (.txt)'',
         dl_data = cp ''A story.'',
         dl_file_name = cp ''sgu_story_20240309_140507.txt'',
         dl_mime = cp ''text/plain'',
         dl_key = cp ''download_20240309_140507''\<rparr>]"
    using outcome_classification [of "Some (cp ''A story.'')" ?now None]
    by (simp add: ts) (simp add: cp_def)
  show "display_result ?now None (Some \<lparr>fb_truthy = True, fb_block_reason = Some \<lparr>br_name = cp ''OTHER''\<rparr>\<rparr>) =
     [Error ([128683] @ cp '' Story generation was blocked due to safety settings.''),
      Info (cp ''Reason: '' @ [96] @ cp ''OTHER'' @ [96]),
      Warning (cp ''Please try rephrasing your prompt to be clearer and avoid sensitive topics.'')]"
    using outcome_classification [of None ?now "Some \<lparr>fb_truthy = True, fb_block_reason = Some \<lparr>br_name = cp ''OTHER''\<rparr>\<rparr>"]
    by (simp add: truthy_opt_str_def)
  show "display_result ?now None None = []"
    using outcome_classification [of None ?now None]
    by (simp add: truthy_opt_str_def truthy_feedback_def)
  show "display_result ?now (Some []) (Some \<lparr>fb_truthy = True, fb_block_reason = None\<rparr>) =
     [Warning ([9888, 65039] @
        cp '' No story was generated. This might be due to the prompt or API issues. Please try again o'' @
        cp ''r rephrase.'')]"
    using outcome_classification [of "Some []" ?now "Some \<lparr>fb_truthy = True, fb_block_reason = None\<rparr>"]
    by (simp add: truthy_opt_str_def truthy_str_def)
qed


section \<open>One submission, end to end\<close>

lemma main_submitted:
  "clicked \<Longrightarrow> strip user_prompt \<noteq> [] \<Longrightarrow>
   main api now the_model user_prompt clicked =
     main_widgets user_prompt @
     Spinner ([9997, 65039] @ cp '' Gemini is crafting your SGU story... Please wait.'') #
     fst (generate_sgu_story api (strip user_prompt) the_model) @
     display_result now (fst (snd (generate_sgu_story api (strip user_prompt) the_model)))
       (snd (snd (generate_sgu_story api (strip user_prompt) the_model)))"
  by (simp add: main_def truthy_str_def split: prod.split)

lemma main_not_submitted:
  "\<not> clicked \<or> strip user_prompt = [] \<Longrightarrow> main api now the_model user_prompt clicked = main_widgets user_prompt"
  by (auto simp add: main_def truthy_str_def)

lemma generate_events:
  "x \<in> set (fst (generate_sgu_story api u the_model)) \<Longrightarrow>
   (\<exists>m. x = Generate_content m (full_prompt u) generation_config safety_settings) \<or>
   (\<exists>s. x = Error s) \<or> (\<exists>s. x = Info s)"
  by (auto simp add: generate_sgu_story_def split: option.splits sum.splits exn.splits prod.splits)

lemma script_runs_main:
  "configure_gemini s environ list_models = (evs, Returned (Some m)) \<Longrightarrow>
   script s environ list_models api now user_prompt clicked =
     (Page_config (cp ''SGU Story Weaver'') [128214] (cp ''centered'') # evs @
      main api now (Some m) user_prompt clicked @ display_footer,
      Returned ())"
  by (simp add: script_def)

lemma main_failure:
  assumes "strip user_prompt \<noteq> []"
    and "generate_sgu_story api (strip user_prompt) (Some m) =
      ([Generate_content m (full_prompt (strip user_prompt)) generation_config safety_settings,
        Error ([10060] @ cp '' API Error during generation: '' @ e),
        Info (cp ''Check network, API key, or prompt complexity.'')],
       (None, None))"
  shows "main api now (Some m) user_prompt True =
     main_widgets user_prompt @
     [Spinner ([9997, 65039] @ cp '' Gemini is crafting your SGU story... Please wait.''),
      Generate_content m (full_prompt (strip user_prompt)) generation_config safety_settings,
      Error ([10060] @ cp '' API Error during generation: '' @ e),
      Info (cp ''Check network, API key, or prompt complexity.'')]"
  using assms display_nothing [of None None now]
  by (simp add: main_submitted truthy_opt_str_def truthy_feedback_def)

text \<open>
  When no read of the response raises, a response without parts and without text
  whose feedback is truthy and carries a block reason reaches the blocked branch of
  \<open>main\<close>, which shows the name of the reason.
\<close>

lemma block_surfaced_when_read:
  assumes "strip user_prompt \<noteq> []"
    and "api m (full_prompt (strip user_prompt)) generation_config safety_settings = Inr r"
    and "resp_parts r = Missing \<or> resp_parts r = Value []"
    and "resp_text r = Missing \<or> resp_text r = Value []"
    and "resp_prompt_feedback r = Value f"
    and "fb_truthy f"
    and "fb_block_reason f = Some br"
  shows "main api now (Some m) user_prompt True =
     main_widgets user_prompt @
     [Spinner ([9997, 65039] @ cp '' Gemini is crafting your SGU story... Please wait.''),
      Generate_content m (full_prompt (strip user_prompt)) generation_config safety_settings,
      Error ([128683] @ cp '' Story generation was blocked due to safety settings.''),
      Info (cp ''Reason: '' @ [96] @ br_name br @ [96]),
      Warning (cp ''Please try rephrasing your prompt to be clearer and avoid sensitive topics.'')]"
proof -
  have t: "story_text_of r = Inr None"
    using assms(3,4) by (rule story_text_of_absent)
  have "read_response r = Inr (None, Some f)"
    using assms(5) t by (simp add: read_response_def getattr_prompt_feedback_def)
  then have g: "generate_sgu_story api (strip user_prompt) (Some m) =
      ([Generate_content m (full_prompt (strip user_prompt)) generation_config safety_settings],
       (None, Some f))"
    using generate_returns_response [of api m "strip user_prompt" r, OF assms(2)] by simp
  have d: "display_result now None (Some f) =
     [Error ([128683] @ cp '' Story generation was blocked due to safety settings.''),
      Info (cp ''Reason: '' @ [96] @ br_name br @ [96]),
      Warning (cp ''Please try rephrasing your prompt to be clearer and avoid sensitive topics.'')]"
    using display_blocked [of None f br now] assms(6,7) by (simp add: truthy_opt_str_def)
  show ?thesis
    using assms(1) by (simp add: main_submitted g d)
qed

lemma blocked_response_raises:
  assumes "resp_prompt_feedback r = Value f"
    and "resp_parts r = Raises (Exception e) \<or>
      ((resp_parts r = Missing \<or> resp_parts r = Value []) \<and> resp_text r = Raises (Exception e))"
  shows "read_response r = Inl (Exception e)"
proof -
  have "story_text_of r = Inl (Exception e)"
    using assms(2) by (auto simp add: story_text_of_def direct_text_def)
  then show ?thesis
    using assms(1) by (simp add: read_response_def getattr_prompt_feedback_def)
qed

text \<open>
  Claim C3, which the program does not meet for the provider's own blocked responses.
  The response to a blocked prompt holds no candidate: its feedback is truthy and
  carries the block reason "SAFETY", and it has no parts and no text, which its
  accessors report by raising (\<open>response.parts\<close>, or \<open>response.text\<close> when the parts are
  absent or empty). The reads stand inside the \<open>try\<close> of \<open>generate_sgu_story\<close>, so the
  exception is handled as a failure of the call: \<open>main\<close> shows the API error with the
  exception's message and the advice to check the network, and neither the
  blocked-by-safety message nor the reason "SAFETY".
\<close>

theorem safety_block_reported_as_failure:
  assumes "strip user_prompt \<noteq> []"
    and "api m (full_prompt (strip user_prompt)) generation_config safety_settings = Inr r"
    and "resp_prompt_feedback r = Value f"
    and "fb_truthy f"
    and "fb_block_reason f = Some br"
    and "br_name br = cp ''SAFETY''"
    and "resp_parts r = Raises (Exception e) \<or>
      ((resp_parts r = Missing \<or> resp_parts r = Value []) \<and> resp_text r = Raises (Exception e))"
  shows
    "main api now (Some m) user_prompt True =
       main_widgets user_prompt @
       [Spinner ([9997, 65039] @ cp '' Gemini is crafting your SGU story... Please wait.''),
        Generate_content m (full_prompt (strip user_prompt)) generation_config safety_settings,
        Error ([10060] @ cp '' API Error during generation: '' @ e),
        Info (cp ''Check network, API key, or prompt complexity.'')] \<and>
     Error ([128683] @ cp '' Story generation was blocked due to safety settings.'') \<notin>
       set (main api now (Some m) user_prompt True) \<and>
     Info (cp ''Reason: '' @ [96] @ cp ''SAFETY'' @ [96]) \<notin> set (main api now (Some m) user_prompt True)"
proof -
  have "read_response r = Inl (Exception e)"
    using assms(3,7) by (rule blocked_response_raises)
  then have g: "generate_sgu_story api (strip user_prompt) (Some m) =
      ([Generate_content m (full_prompt (strip user_prompt)) generation_config safety_settings,
        Error ([10060] @ cp '' API Error during generation: '' @ e),
        Info (cp ''Check network, API key, or prompt complexity.'')],
       (None, None))"
    using generate_reading_raises [of api m "strip user_prompt" r, OF assms(2)] by simp
  have m: "main api now (Some m) user_prompt True =
       main_widgets user_prompt @
       [Spinner ([9997, 65039] @ cp '' Gemini is crafting your SGU story... Please wait.''),
        Generate_content m (full_prompt (strip user_prompt)) generation_config safety_settings,
        Error ([10060] @ cp '' API Error during generation: '' @ e),
        Info (cp ''Check network, API key, or prompt complexity.'')]"
    using assms(1) g by (rule main_failure)
  have w: "Error x \<notin> set (main_widgets user_prompt)" "Info x \<notin> set (main_widgets user_prompt)" for x
    by (simp_all add: main_widgets_def)
  have i: "cp ''Reason: '' @ [96] @ cp ''SAFETY'' @ [96] \<noteq> cp ''Check network, API key, or prompt complexity.''"
    by (simp add: cp_def)
  have 1: "Error ([128683] @ cp '' Story generation was blocked due to safety settings.'') \<notin>
       set (main api now (Some m) user_prompt True)"
    unfolding m by (simp add: w)
  have 2: "Info (cp ''Reason: '' @ [96] @ cp ''SAFETY'' @ [96]) \<notin> set (main api now (Some m) user_prompt True)"
    unfolding m using i by (simp add: w)
  from m 1 2 show ?thesis
    by (intro conjI)
qed

theorem safety_block_reported_as_failure_witness:
  "main
     (\<lambda>m p c s. Inr \<lparr>resp_parts = Raises (Exception (cp ''response.candidates is empty'')),
        resp_text = Raises (Exception (cp ''response.candidates is empty'')),
        resp_prompt_feedback = Value \<lparr>fb_truthy = True, fb_block_reason = Some \<lparr>br_name = cp ''SAFETY''\<rparr>\<rparr>\<rparr>)
     \<lparr>tm_year = 2024, tm_mon = 3, tm_mday = 9, tm_hour = 14, tm_min = 5, tm_sec = 7\<rparr>
     (Some (GenerativeModel FREE_GEMINI_MODEL)) (cp '' a heist '') True =
   main_widgets (cp '' a heist '') @
     [Spinner ([9997, 65039] @ cp '' Gemini is crafting your SGU story... Please wait.''),
      Generate_content (GenerativeModel FREE_GEMINI_MODEL) (full_prompt (cp ''a heist''))
        generation_config safety_settings,
      Error ([10060] @ cp '' API Error during generation: '' @ cp ''response.candidates is empty''),
      Info (cp ''Check network, API key, or prompt complexity.'')] \<and>
   Info (cp ''Reason: '' @ [96] @ cp ''SAFETY'' @ [96]) \<notin>
     set (main
       (\<lambda>m p c s. Inr \<lparr>resp_parts = Raises (Exception (cp ''response.candidates is empty'')),
          resp_text = Raises (Exception (cp ''response.candidates is empty'')),
          resp_prompt_feedback = Value \<lparr>fb_truthy = True, fb_block_reason = Some \<lparr>br_name = cp ''SAFETY''\<rparr>\<rparr>\<rparr>)
       \<lparr>tm_year = 2024, tm_mon = 3, tm_mday = 9, tm_hour = 14, tm_min = 5, tm_sec = 7\<rparr>
       (Some (GenerativeModel FREE_GEMINI_MODEL)) (cp '' a heist '') True)"
proof -
  let ?f = "\<lparr>fb_truthy = True, fb_block_reason = Some \<lparr>br_name = cp ''SAFETY''\<rparr>\<rparr>"
  let ?r = "\<lparr>resp_parts = Raises (Exception (cp ''response.candidates is empty'')),
        resp_text = Raises (Exception (cp ''response.candidates is empty'')),
        resp_prompt_feedback = Value ?f\<rparr>"
  let ?now = "\<lparr>tm_year = 2024, tm_mon = 3, tm_mday = 9, tm_hour = 14, tm_min = 5, tm_sec = 7\<rparr>"
  have s: "strip (cp '' a heist '') = cp ''a heist''"
    by (simp add: strip_def cp_def py_isspace_def)
  have n: "strip (cp '' a heist '') \<noteq> []"
    by (simp add: s) (simp add: cp_def)
  note T = safety_block_reported_as_failure [of "cp '' a heist ''" "\<lambda>m p c s. Inr ?r"
      "GenerativeModel FREE_GEMINI_MODEL" ?r ?f "\<lparr>br_name = cp ''SAFETY''\<rparr>"
      "cp ''response.candidates is empty''" ?now, OF n]
  have 1: "main (\<lambda>m p c s. Inr ?r) ?now (Some (GenerativeModel FREE_GEMINI_MODEL)) (cp '' a heist '') True =
     main_widgets (cp '' a heist '') @
     [Spinner ([9997, 65039] @ cp '' Gemini is crafting your SGU story... Please wait.''),
      Generate_content (GenerativeModel FREE_GEMINI_MODEL) (full_prompt (cp ''a heist''))
        generation_config safety_settings,
      Error ([10060] @ cp '' API Error during generation: '' @ cp ''response.candidates is empty''),
      Info (cp ''Check network, API key, or prompt complexity.'')]"
    using T [THEN conjunct1] by (simp add: s)
  have 2: "Info (cp ''Reason: '' @ [96] @ cp ''SAFETY'' @ [96]) \<notin>
     set (main (\<lambda>m p c s. Inr ?r) ?now (Some (GenerativeModel FREE_GEMINI_MODEL)) (cp '' a heist '') True)"
    using T [THEN conjunct2, THEN conjunct2] by simp
  from 1 2 show ?thesis
    by (intro conjI)
qed

section \<open>Failures of the generation call\<close>

text \<open>
  Claim C7, which the program meets for the failure and not for the safety block.
  Whatever exception the generation call raises, \<open>generate_sgu_story\<close> catches it,
  reports it with the exception's message, and returns (absent text, absent
  feedback); the script does not halt: \<open>main\<close> shows nothing further, the footer
  follows, and the run ends normally. But a safety block does not return (absent
  text, present feedback carrying a block reason): the provider's response to a
  blocked prompt raises when its parts or its text are read, inside the same \<open>try\<close>,
  so the function reports that exception and returns the same (absent text, absent
  feedback) as for a failed call.
\<close>

theorem generation_failure:
  assumes "api m (full_prompt u) generation_config safety_settings = Inl (Exception e)"
  shows
    "generate_sgu_story api u (Some m) =
       ([Generate_content m (full_prompt u) generation_config safety_settings,
         Error ([10060] @ cp '' API Error during generation: '' @ e),
         Info (cp ''Check network, API key, or prompt complexity.'')],
        (None, None)) \<and>
     (\<forall>api' r f br e'.
        api' m (full_prompt u) generation_config safety_settings = Inr r \<longrightarrow>
        resp_prompt_feedback r = Value f \<longrightarrow> fb_truthy f \<longrightarrow> fb_block_reason f = Some br \<longrightarrow>
        resp_parts r = Raises (Exception e') \<or>
          ((resp_parts r = Missing \<or> resp_parts r = Value []) \<and> resp_text r = Raises (Exception e')) \<longrightarrow>
        generate_sgu_story api' u (Some m) =
          ([Generate_content m (full_prompt u) generation_config safety_settings,
            Error ([10060] @ cp '' API Error during generation: '' @ e'),
            Info (cp ''Check network, API key, or prompt complexity.'')],
           (None, None)) \<and>
        snd (generate_sgu_story api' u (Some m)) = snd (generate_sgu_story api u (Some m))) \<and>
     (\<forall>s environ list_models evs now user_prompt.
        configure_gemini s environ list_models = (evs, Returned (Some m)) \<longrightarrow>
        strip user_prompt = u \<longrightarrow> u \<noteq> [] \<longrightarrow>
        script s environ list_models api now user_prompt True =
          (Page_config (cp ''SGU Story Weaver'') [128214] (cp ''centered'') # evs @
           main_widgets user_prompt @
           [Spinner ([9997, 65039] @ cp '' Gemini is crafting your SGU story... Please wait.''),
            Generate_content m (full_prompt u) generation_config safety_settings,
            Error ([10060] @ cp '' API Error during generation: '' @ e),
            Info (cp ''Check network, API key, or prompt complexity.'')] @
           display_footer,
           Returned ()))"
proof -
  have g: "generate_sgu_story api u (Some m) =
       ([Generate_content m (full_prompt u) generation_config safety_settings,
         Error ([10060] @ cp '' API Error during generation: '' @ e),
         Info (cp ''Check network, API key, or prompt complexity.'')],
        (None, None))"
    using assms by (rule generate_raises)
  have b: "generate_sgu_story api' u (Some m) =
          ([Generate_content m (full_prompt u) generation_config safety_settings,
            Error ([10060] @ cp '' API Error during generation: '' @ e'),
            Info (cp ''Check network, API key, or prompt complexity.'')],
           (None, None)) \<and>
        snd (generate_sgu_story api' u (Some m)) = snd (generate_sgu_story api u (Some m))"
    if "api' m (full_prompt u) generation_config safety_settings = Inr r"
      and "resp_prompt_feedback r = Value f"
      and "resp_parts r = Raises (Exception e') \<or>
          ((resp_parts r = Missing \<or> resp_parts r = Value []) \<and> resp_text r = Raises (Exception e'))"
    for api' :: provider and r f e'
  proof -
    have "read_response r = Inl (Exception e')"
      using that(2,3) by (rule blocked_response_raises)
    then show ?thesis
      using generate_reading_raises [of api' m u r, OF that(1)] g by simp
  qed
  have c: "script s environ list_models api now user_prompt True =
          (Page_config (cp ''SGU Story Weaver'') [128214] (cp ''centered'') # evs @
           main_widgets user_prompt @
           [Spinner ([9997, 65039] @ cp '' Gemini is crafting your SGU story... Please wait.''),
            Generate_content m (full_prompt u) generation_config safety_settings,
            Error ([10060] @ cp '' API Error during generation: '' @ e),
            Info (cp ''Check network, API key, or prompt complexity.'')] @
           display_footer,
           Returned ())"
    if "configure_gemini s environ list_models = (evs, Returned (Some m))"
      and "strip user_prompt = u" and "u \<noteq> []"
    for s environ list_models evs now user_prompt
  proof -
    have "main api now (Some m) user_prompt True =
        main_widgets user_prompt @
        [Spinner ([9997, 65039] @ cp '' Gemini is crafting your SGU story... Please wait.''),
         Generate_content m (full_prompt u) generation_config safety_settings,
         Error ([10060] @ cp '' API Error during generation: '' @ e),
         Info (cp ''Check network, API key, or prompt complexity.'')]"
      using main_failure [of user_prompt api m e now] that(2,3) g by simp
    then show ?thesis
      using that(1) by (simp add: script_runs_main)
  qed
  from g b c show ?thesis
    by blast
qed

theorem generation_failure_witness:
  "generate_sgu_story (\<lambda>m p c s. Inl (Exception (cp ''timed out''))) (cp ''a heist'')
     (Some (GenerativeModel FREE_GEMINI_MODEL)) =
     ([Generate_content (GenerativeModel FREE_GEMINI_MODEL) (full_prompt (cp ''a heist''))
         generation_config safety_settings,
       Error ([10060] @ cp '' API Error during generation: '' @ cp ''timed out''),
       Info (cp ''Check network, API key, or prompt complexity.'')],
      (None, None)) \<and>
   generate_sgu_story
     (\<lambda>m p c s. Inr \<lparr>resp_parts = Raises (Exception (cp ''response.candidates is empty'')),
        resp_text = Raises (Exception (cp ''response.candidates is empty'')),
        resp_prompt_feedback = Value \<lparr>fb_truthy = True, fb_block_reason = Some \<lparr>br_name = cp ''SAFETY''\<rparr>\<rparr>\<rparr>)
     (cp ''a heist'') (Some (GenerativeModel FREE_GEMINI_MODEL)) =
     ([Generate_content (GenerativeModel FREE_GEMINI_MODEL) (full_prompt (cp ''a heist''))
         generation_config safety_settings,
       Error ([10060] @ cp '' API Error during generation: '' @ cp ''response.candidates is empty''),
       Info (cp ''Check network, API key, or prompt complexity.'')],
      (None, None)) \<and>
   script (Secrets [cp ''GEMINI_API_KEY'' \<mapsto> cp ''k'']) Map.empty
     (\<lambda>k. Inr [\<lparr>mi_name = FREE_GEMINI_MODEL, mi_supported_generation_methods = [cp ''generateContent'']\<rparr>])
     (\<lambda>m p c s. Inl (Exception (cp ''timed out'')))
     \<lparr>tm_year = 2024, tm_mon = 3, tm_mday = 9, tm_hour = 14, tm_min = 5, tm_sec = 7\<rparr>
     (cp '' a heist '') True =
     (Page_config (cp ''SGU Story Weaver'') [128214] (cp ''centered'') #
      [Sidebar_info ([128273] @ cp '' Using API Key from Streamlit secrets.''),
       Sidebar_success ([9989] @ cp '' Using model: '' @ [96] @ FREE_GEMINI_MODEL @ [96])] @
      main_widgets (cp '' a heist '') @
      [Spinner ([9997, 65039] @ cp '' Gemini is crafting your SGU story... Please wait.''),
       Generate_content (GenerativeModel FREE_GEMINI_MODEL) (full_prompt (cp ''a heist''))
         generation_config safety_settings,
       Error ([10060] @ cp '' API Error during generation: '' @ cp ''timed out''),
       Info (cp ''Check network, API key, or prompt complexity.'')] @
      display_footer,
      Returned ())"
proof -
  let ?m = "GenerativeModel FREE_GEMINI_MODEL"
  let ?api = "\<lambda>(m::model) (p::pystr) (c::generation_config) (s::safety_setting list).
      Inl (Exception (cp ''timed out'')) :: exn + response"
  let ?f = "\<lparr>fb_truthy = True, fb_block_reason = Some \<lparr>br_name = cp ''SAFETY''\<rparr>\<rparr>"
  let ?r = "\<lparr>resp_parts = Raises (Exception (cp ''response.candidates is empty'')),
        resp_text = Raises (Exception (cp ''response.candidates is empty'')),
        resp_prompt_feedback = Value ?f\<rparr>"
  let ?s = "Secrets [cp ''GEMINI_API_KEY'' \<mapsto> cp ''k'']"
  let ?lm = "\<lambda>k::pystr. Inr [\<lparr>mi_name = FREE_GEMINI_MODEL,
      mi_supported_generation_methods = [cp ''generateContent'']\<rparr>] :: exn + model_info list"
  let ?evs = "[Sidebar_info ([128273] @ cp '' Using API Key from Streamlit secrets.''),
       Sidebar_success ([9989] @ cp '' Using model: '' @ [96] @ FREE_GEMINI_MODEL @ [96])]"
  let ?now = "\<lparr>tm_year = 2024, tm_mon = 3, tm_mday = 9, tm_hour = 14, tm_min = 5, tm_sec = 7\<rparr>"
  have a: "?api ?m (full_prompt (cp ''a heist'')) generation_config safety_settings =
      Inl (Exception (cp ''timed out''))"
    by simp
  note T = generation_failure [of ?api ?m "cp ''a heist''" "cp ''timed out''", OF a]
  have s: "strip (cp '' a heist '') = cp ''a heist''"
    by (simp add: strip_def cp_def py_isspace_def)
  have n: "cp ''a heist'' \<noteq> []"
    by (simp add: cp_def)
  have k: "cp ''k'' \<noteq> []"
    by (simp add: cp_def)
  have c: "configure_gemini ?s Map.empty ?lm = (?evs, Returned (Some ?m))"
    by (simp add: configure_gemini_def get_api_key_def secret_key_def truthy_str_def
        available_models_def k)
  from T have 1: "generate_sgu_story ?api (cp ''a heist'') (Some ?m) =
     ([Generate_content ?m (full_prompt (cp ''a heist'')) generation_config safety_settings,
       Error ([10060] @ cp '' API Error during generation: '' @ cp ''timed out''),
       Info (cp ''Check network, API key, or prompt complexity.'')],
      (None, None))"
    by (rule conjunct1)
  from T have "\<forall>api' r f br e'.
        api' ?m (full_prompt (cp ''a heist'')) generation_config safety_settings = Inr r \<longrightarrow>
        resp_prompt_feedback r = Value f \<longrightarrow> fb_truthy f \<longrightarrow> fb_block_reason f = Some br \<longrightarrow>
        resp_parts r = Raises (Exception e') \<or>
          ((resp_parts r = Missing \<or> resp_parts r = Value []) \<and> resp_text r = Raises (Exception e')) \<longrightarrow>
        generate_sgu_story api' (cp ''a heist'') (Some ?m) =
          ([Generate_content ?m (full_prompt (cp ''a heist'')) generation_config safety_settings,
            Error ([10060] @ cp '' API Error during generation: '' @ e'),
            Info (cp ''Check network, API key, or prompt complexity.'')],
           (None, None)) \<and>
        snd (generate_sgu_story api' (cp ''a heist'') (Some ?m)) =
          snd (generate_sgu_story ?api (cp ''a heist'') (Some ?m))"
    by (rule conjunct1 [OF conjunct2])
  from this [rule_format, of "\<lambda>m p c s. Inr ?r" ?r ?f "\<lparr>br_name = cp ''SAFETY''\<rparr>"
      "cp ''response.candidates is empty''"]
  have 2: "generate_sgu_story (\<lambda>m p c s. Inr ?r) (cp ''a heist'') (Some ?m) =
     ([Generate_content ?m (full_prompt (cp ''a heist'')) generation_config safety_settings,
       Error ([10060] @ cp '' API Error during generation: '' @ cp ''response.candidates is empty''),
       Info (cp ''Check network, API key, or prompt complexity.'')],
      (None, None))"
    by simp
  from T have "\<forall>s environ list_models evs now user_prompt.
        configure_gemini s environ list_models = (evs, Returned (Some ?m)) \<longrightarrow>
        strip user_prompt = cp ''a heist'' \<longrightarrow> cp ''a heist'' \<noteq> [] \<longrightarrow>
        script s environ list_models ?api now user_prompt True =
          (Page_config (cp ''SGU Story Weaver'') [128214] (cp ''centered'') # evs @
           main_widgets user_prompt @
           [Spinner ([9997, 65039] @ cp '' Gemini is crafting your SGU story... Please wait.''),
            Generate_content ?m (full_prompt (cp ''a heist'')) generation_config safety_settings,
            Error ([10060] @ cp '' API Error during generation: '' @ cp ''timed out''),
            Info (cp ''Check network, API key, or prompt complexity.'')] @
           display_footer,
           Returned ())"
    by (rule conjunct2 [OF conjunct2])
  from this [rule_format, OF c s n, of ?now]
  have 3: "script ?s Map.empty ?lm ?api ?now (cp '' a heist '') True =
          (Page_config (cp ''SGU Story Weaver'') [128214] (cp ''centered'') # ?evs @
           main_widgets (cp '' a heist '') @
           [Spinner ([9997, 65039] @ cp '' Gemini is crafting your SGU story... Please wait.''),
            Generate_content ?m (full_prompt (cp ''a heist'')) generation_config safety_settings,
            Error ([10060] @ cp '' API Error during generation: '' @ cp ''timed out''),
            Info (cp ''Check network, API key, or prompt complexity.'')] @
           display_footer,
           Returned ())" .
  from 1 2 3 show ?thesis
    by (intro conjI)
qed

section \<open>Parts without text\<close>

lemma join_no_text: "\<forall>p\<in>set ps. part_text p = Missing \<Longrightarrow> join_part_texts ps = Inr []"
proof -
  assume a: "\<forall>p\<in>set ps. part_text p = Missing"
  then have "\<forall>p\<in>set ps. \<forall>e. part_text p \<noteq> Raises e"
    by simp
  then have "join_part_texts ps = Inr (spec_concat_part_texts ps)"
    by (rule join_part_texts_spec)
  moreover have "spec_concat_part_texts ps = []"
    using a by (induction ps) simp_all
  ultimately show ?thesis
    by simp
qed

text \<open>
  Claim C10. When the response exposes a non-empty sequence of parts none of which
  carries text, the extracted text is the empty string, whatever the direct text
  field holds: that field does not influence the result as long as the parts are
  non-empty. The result display tests the text by truthiness, so it treats the empty
  string as it treats an absent text: it shows what it shows for \<open>None\<close>, and neither
  the story container nor the download button is among the calls of \<open>main\<close>. (The
  function returns the extracted text when the feedback can be read; when reading
  the feedback raises, it returns an absent text.)
\<close>

theorem empty_story_not_rendered:
  assumes "api m (full_prompt (strip user_prompt)) generation_config safety_settings = Inr r"
    and "resp_parts r = Value ps"
    and "ps \<noteq> []"
    and "\<forall>p\<in>set ps. part_text p = Missing"
  shows
    "story_text_of r = Inr (Some []) \<and>
     ((\<forall>e. resp_prompt_feedback r \<noteq> Raises e) \<longrightarrow>
        fst (snd (generate_sgu_story api (strip user_prompt) (Some m))) = Some []) \<and>
     ((\<exists>e. resp_prompt_feedback r = Raises e) \<longrightarrow>
        fst (snd (generate_sgu_story api (strip user_prompt) (Some m))) = None) \<and>
     (\<forall>t. story_text_of (r\<lparr>resp_text := t\<rparr>) = story_text_of r) \<and>
     (\<forall>fb. display_result now (Some []) fb = display_result now None fb) \<and>
     Container \<notin> set (main api now (Some m) user_prompt clicked) \<and>
     (\<forall>d. Download_button d \<notin> set (main api now (Some m) user_prompt clicked))"
proof -
  let ?g = "generate_sgu_story api (strip user_prompt) (Some m)"
  have e: "story_text_of r = Inr (Some [])"
    using assms(2,3,4) by (simp add: story_text_of_def join_no_text)
  have g1: "fst (snd ?g) = Some []" if "\<forall>e. resp_prompt_feedback r \<noteq> Raises e"
    using generate_returns_response [of api m "strip user_prompt" r, OF assms(1)
        read_response_text [OF that e]]
    by simp
  have g2: "fst (snd ?g) = None" if fr: "\<exists>e. resp_prompt_feedback r = Raises e"
  proof -
    obtain x where "read_response r = Inl x"
      using fr read_response_raises [of r] by blast
    then obtain e where "read_response r = Inl (Exception e)"
      by (cases x) simp
    then show ?thesis
      using generate_reading_raises [of api m "strip user_prompt" r, OF assms(1)] by simp
  qed
  have f: "story_text_of (r\<lparr>resp_text := t\<rparr>) = story_text_of r" for t
    using assms(2,3) by (simp add: story_text_of_def)
  have d: "display_result now (Some []) fb = display_result now None fb" for fb
    by (simp add: display_result_def truthy_opt_str_def truthy_str_def)
  have t: "fst (snd ?g) = Some [] \<or> fst (snd ?g) = None"
  proof (cases "\<exists>e. resp_prompt_feedback r = Raises e")
    case True
    then show ?thesis
      by (simp add: g2)
  next
    case False
    then have "\<forall>e. resp_prompt_feedback r \<noteq> Raises e"
      by simp
    then show ?thesis
      by (simp add: g1)
  qed
  have w1: "Container \<notin> set (main_widgets user_prompt)"
    by (simp add: main_widgets_def)
  have w2: "Download_button dl \<notin> set (main_widgets user_prompt)" for dl
    by (simp add: main_widgets_def)
  have r1: "Container \<notin> set (display_result now None fb)" for fb
    by (simp add: display_result_def truthy_opt_str_def)
  have r2: "Download_button dl \<notin> set (display_result now None fb)" for fb dl
    by (simp add: display_result_def truthy_opt_str_def)
  have v1: "Container \<notin> set (fst ?g)"
    using generate_events [of Container api "strip user_prompt" "Some m"] by blast
  have v2: "Download_button dl \<notin> set (fst ?g)" for dl
    using generate_events [of "Download_button dl" api "strip user_prompt" "Some m"] by blast
  have x1: "Container \<notin> set (display_result now (fst (snd ?g)) fb)" for fb
    using t d [of fb] r1 [of fb] by auto
  have x2: "Download_button dl \<notin> set (display_result now (fst (snd ?g)) fb)" for fb dl
    using t d [of fb] r2 [of dl fb] by auto
  have m1: "Container \<notin> set (main api now (Some m) user_prompt clicked)"
  proof (cases "clicked \<and> strip user_prompt \<noteq> []")
    case True
    then show ?thesis
      by (simp add: main_submitted w1 v1 x1)
  next
    case False
    then show ?thesis
      by (simp add: main_not_submitted w1)
  qed
  have m2: "Download_button dl \<notin> set (main api now (Some m) user_prompt clicked)" for dl
  proof (cases "clicked \<and> strip user_prompt \<noteq> []")
    case True
    then show ?thesis
      by (simp add: main_submitted w2 v2 x2)
  next
    case False
    then show ?thesis
      by (simp add: main_not_submitted w2)
  qed
  show ?thesis
  proof (intro conjI allI impI)
    show "story_text_of r = Inr (Some [])"
      by (rule e)
    show "fst (snd ?g) = Some []" if "\<forall>e. resp_prompt_feedback r \<noteq> Raises e"
      using that by (rule g1)
    show "fst (snd ?g) = None" if "\<exists>e. resp_prompt_feedback r = Raises e"
      using that by (rule g2)
    show "story_text_of (r\<lparr>resp_text := t\<rparr>) = story_text_of r" for t
      by (rule f)
    show "display_result now (Some []) fb = display_result now None fb" for fb
      by (rule d)
    show "Container \<notin> set (main api now (Some m) user_prompt clicked)"
      by (rule m1)
    show "Download_button dl \<notin> set (main api now (Some m) user_prompt clicked)" for dl
      by (rule m2)
  qed
qed

theorem empty_story_not_rendered_witness:
  "fst (snd (generate_sgu_story
     (\<lambda>m p c s. Inr \<lparr>resp_parts = Value [\<lparr>part_text = Missing\<rparr>], resp_text = Value (cp ''Once upon a time''),
        resp_prompt_feedback = Missing\<rparr>)
     (strip (cp '' a heist '')) (Some (GenerativeModel FREE_GEMINI_MODEL)))) = Some [] \<and>
   main
     (\<lambda>m p c s. Inr \<lparr>resp_parts = Value [\<lparr>part_text = Missing\<rparr>], resp_text = Value (cp ''Once upon a time''),
        resp_prompt_feedback = Missing\<rparr>)
     \<lparr>tm_year = 2024, tm_mon = 3, tm_mday = 9, tm_hour = 14, tm_min = 5, tm_sec = 7\<rparr>
     (Some (GenerativeModel FREE_GEMINI_MODEL)) (cp '' a heist '') True =
   main_widgets (cp '' a heist '') @
     [Spinner ([9997, 65039] @ cp '' Gemini is crafting your SGU story... Please wait.''),
      Generate_content (GenerativeModel FREE_GEMINI_MODEL) (full_prompt (cp ''a heist''))
        generation_config safety_settings]"
proof -
  let ?m = "GenerativeModel FREE_GEMINI_MODEL"
  let ?r = "\<lparr>resp_parts = Value [\<lparr>part_text = Missing\<rparr>], resp_text = Value (cp ''Once upon a time''),
        resp_prompt_feedback = Missing :: feedback attr\<rparr>"
  let ?api = "\<lambda>(m::model) (p::pystr) (c::generation_config) (s::safety_setting list).
      Inr ?r :: exn + response"
  let ?now = "\<lparr>tm_year = 2024, tm_mon = 3, tm_mday = 9, tm_hour = 14, tm_min = 5, tm_sec = 7\<rparr>"
  have s: "strip (cp '' a heist '') = cp ''a heist''"
    by (simp add: strip_def cp_def py_isspace_def)
  have n: "cp ''a heist'' \<noteq> []"
    by (simp add: cp_def)
  note T = empty_story_not_rendered [of ?api ?m "cp '' a heist ''" ?r
      "[\<lparr>part_text = Missing\<rparr>]" ?now True]
  have 1: "fst (snd (generate_sgu_story ?api (strip (cp '' a heist '')) (Some ?m))) = Some []"
    using T by simp
  have d: "display_result ?now (Some []) None = display_result ?now None None"
    using T by simp
  have e: "story_text_of ?r = Inr (Some [])"
    using T by simp
  have g: "generate_sgu_story ?api (cp ''a heist'') (Some ?m) =
      ([Generate_content ?m (full_prompt (cp ''a heist'')) generation_config safety_settings],
       (Some [], None))"
    using generate_returns_response [of ?api ?m "cp ''a heist''" ?r "Some []" None] e
    by (simp add: read_response_def getattr_prompt_feedback_def)
  have 2: "main ?api ?now (Some ?m) (cp '' a heist '') True =
     main_widgets (cp '' a heist '') @
     [Spinner ([9997, 65039] @ cp '' Gemini is crafting your SGU story... Please wait.''),
      Generate_content ?m (full_prompt (cp ''a heist'')) generation_config safety_settings]"
    using d n
    by (simp add: main_submitted s g display_nothing truthy_opt_str_def truthy_feedback_def)
  from 1 2 show ?thesis
    by (intro conjI)
qed

section \<open>Prompt assembly\<close>

lemma generate_calls_provider:
  "\<exists>rest. fst (generate_sgu_story api u (Some m)) =
     Generate_content m (full_prompt u) generation_config safety_settings # rest"
  by (auto simp add: generate_sgu_story_def split: sum.splits exn.splits prod.splits)

text \<open>
  Claim C4. For every user input (so for every trimmed input of at most 500
  characters), the prompt that \<open>generate_sgu_story\<close> sends to the provider is the
  concatenation of the fixed head of the template, the full campus context, the fixed
  middle, the input, and the fixed tail. The input stands in it verbatim, at a fixed
  offset, as does the context; the rest of the prompt is the same for every input
  (it is the prompt of the empty input, split at that offset). Nothing is escaped or
  removed, and the prompt is a function of the input alone.
\<close>

theorem prompt_assembly:
  "hd (fst (generate_sgu_story api user_prompt (Some m))) =
     Generate_content m (prompt_head @ SGU_CONTEXT @ prompt_middle @ user_prompt @ prompt_tail)
       generation_config safety_settings \<and>
   take (length user_prompt)
     (drop (length (prompt_head @ SGU_CONTEXT @ prompt_middle)) (full_prompt user_prompt)) = user_prompt \<and>
   take (length SGU_CONTEXT) (drop (length prompt_head) (full_prompt user_prompt)) = SGU_CONTEXT \<and>
   full_prompt user_prompt =
     take (length (prompt_head @ SGU_CONTEXT @ prompt_middle)) (full_prompt []) @ user_prompt @
     drop (length (prompt_head @ SGU_CONTEXT @ prompt_middle)) (full_prompt [])"
proof -
  obtain rest where "fst (generate_sgu_story api user_prompt (Some m)) =
     Generate_content m (full_prompt user_prompt) generation_config safety_settings # rest"
    using generate_calls_provider by blast
  then have "hd (fst (generate_sgu_story api user_prompt (Some m))) =
     Generate_content m (prompt_head @ SGU_CONTEXT @ prompt_middle @ user_prompt @ prompt_tail)
       generation_config safety_settings"
    by (simp add: full_prompt_def)
  then show ?thesis
    by (simp add: full_prompt_def)
qed

section \<open>Blank input\<close>

lemma strip_empty_iff: "strip s = [] \<longleftrightarrow> blank s"
proof
  assume "strip s = []"
  then have "dropWhile py_isspace (rev (dropWhile py_isspace s)) = []"
    by (simp add: strip_def)
  then have a: "\<forall>c\<in>set (dropWhile py_isspace s). py_isspace c"
    by simp
  have "dropWhile py_isspace s = []"
  proof (rule ccontr)
    assume n: "dropWhile py_isspace s \<noteq> []"
    then have "\<not> py_isspace (hd (dropWhile py_isspace s))"
      by (rule hd_dropWhile)
    moreover have "hd (dropWhile py_isspace s) \<in> set (dropWhile py_isspace s)"
      using n by simp
    ultimately show False
      using a by blast
  qed
  then show "blank s"
    by (simp add: blank_def list_all_iff)
next
  assume "blank s"
  then have h: "dropWhile py_isspace s = []"
    by (simp add: blank_def list_all_iff)
  show "strip s = []"
    unfolding strip_def h by simp
qed

lemma main_submitted_iff:
  "main api now the_model user_prompt clicked =
     main_widgets user_prompt @
     (if clicked \<and> \<not> blank user_prompt then
        Spinner ([9997, 65039] @ cp '' Gemini is crafting your SGU story... Please wait.'') #
        fst (generate_sgu_story api (strip user_prompt) the_model) @
        display_result now (fst (snd (generate_sgu_story api (strip user_prompt) the_model)))
          (snd (snd (generate_sgu_story api (strip user_prompt) the_model)))
      else [])"
proof (cases "clicked \<and> strip user_prompt \<noteq> []")
  case True
  then show ?thesis
    by (simp add: main_submitted strip_empty_iff)
next
  case False
  then show ?thesis
    by (auto simp add: main_not_submitted strip_empty_iff)
qed

lemma widgets_no_call: "Generate_content m p c s \<notin> set (main_widgets user_prompt)"
  by (simp add: main_widgets_def)

lemma display_no_call: "Generate_content m p c s \<notin> set (display_result now story_text fb)"
  by (simp add: display_result_def Let_def)

lemma generate_call_prompt:
  "Generate_content m p c s \<in> set (fst (generate_sgu_story api u the_model)) \<Longrightarrow> p = full_prompt u"
  using generate_events [of "Generate_content m p c s" api u the_model] by auto

lemma widgets_button:
  "Button l d k \<in> set (main_widgets user_prompt) \<longleftrightarrow>
   l = [10024] @ cp '' Weave My Story!'' \<and> d = blank user_prompt \<and> k = cp ''generate_button''"
  by (auto simp add: main_widgets_def truthy_str_def strip_empty_iff)

text \<open>
  Claim C9. When the input is empty or consists only of whitespace, the submit button
  is created disabled, and the input never reaches prompt assembly: \<open>main\<close> makes the
  calls of its widgets and nothing else, whatever the button returned. The generation
  function is invoked only when the button was clicked and the stripped input is
  non-empty, and then its argument is the stripped input: the calls that follow the
  widgets are those of \<open>generate_sgu_story\<close> on \<open>strip user_prompt\<close>, and every prompt
  sent to the provider is the prompt assembled from \<open>strip user_prompt\<close>.
\<close>

theorem blank_input_never_submitted:
  "(blank user_prompt \<longrightarrow>
      (\<forall>l d k. Button l d k \<in> set (main api now the_model user_prompt clicked) \<longrightarrow> d) \<and>
      Button ([10024] @ cp '' Weave My Story!'') True (cp ''generate_button'') \<in>
        set (main api now the_model user_prompt clicked) \<and>
      main api now the_model user_prompt clicked = main_widgets user_prompt) \<and>
   (\<not> clicked \<longrightarrow> main api now the_model user_prompt clicked = main_widgets user_prompt) \<and>
   (clicked \<longrightarrow> \<not> blank user_prompt \<longrightarrow>
      strip user_prompt \<noteq> [] \<and>
      main api now the_model user_prompt clicked =
        main_widgets user_prompt @
        Spinner ([9997, 65039] @ cp '' Gemini is crafting your SGU story... Please wait.'') #
        fst (generate_sgu_story api (strip user_prompt) the_model) @
        display_result now (fst (snd (generate_sgu_story api (strip user_prompt) the_model)))
          (snd (snd (generate_sgu_story api (strip user_prompt) the_model)))) \<and>
   (\<forall>m p c s. Generate_content m p c s \<in> set (main api now the_model user_prompt clicked) \<longrightarrow>
      clicked \<and> \<not> blank user_prompt \<and> strip user_prompt \<noteq> [] \<and> p = full_prompt (strip user_prompt))"
proof (intro conjI allI impI)
  assume b: "blank user_prompt"
  then show w: "main api now the_model user_prompt clicked = main_widgets user_prompt"
    by (simp add: main_submitted_iff)
  show "Button ([10024] @ cp '' Weave My Story!'') True (cp ''generate_button'') \<in>
        set (main api now the_model user_prompt clicked)"
    using b by (simp add: w widgets_button)
  fix l d k
  assume "Button l d k \<in> set (main api now the_model user_prompt clicked)"
  then show d
    using b by (simp add: w widgets_button)
next
  assume "\<not> clicked"
  then show "main api now the_model user_prompt clicked = main_widgets user_prompt"
    by (simp add: main_submitted_iff)
next
  assume c: clicked and n: "\<not> blank user_prompt"
  show "strip user_prompt \<noteq> []"
    using n by (simp add: strip_empty_iff)
  show "main api now the_model user_prompt clicked =
        main_widgets user_prompt @
        Spinner ([9997, 65039] @ cp '' Gemini is crafting your SGU story... Please wait.'') #
        fst (generate_sgu_story api (strip user_prompt) the_model) @
        display_result now (fst (snd (generate_sgu_story api (strip user_prompt) the_model)))
          (snd (snd (generate_sgu_story api (strip user_prompt) the_model)))"
    using c n by (simp add: main_submitted_iff)
next
  fix m p c s
  assume g: "Generate_content m p c s \<in> set (main api now the_model user_prompt clicked)"
  have cb: "clicked \<and> \<not> blank user_prompt"
  proof (rule ccontr)
    assume "\<not> (clicked \<and> \<not> blank user_prompt)"
    then have "main api now the_model user_prompt clicked = main_widgets user_prompt"
      by (simp add: main_submitted_iff)
    then show False
      using g widgets_no_call by simp
  qed
  then show clicked and "\<not> blank user_prompt"
    by simp_all
  show "strip user_prompt \<noteq> []"
    using cb by (simp add: strip_empty_iff)
  have "Generate_content m p c s \<in> set (fst (generate_sgu_story api (strip user_prompt) the_model))"
    using g cb by (simp add: main_submitted_iff widgets_no_call display_no_call)
  then show "p = full_prompt (strip user_prompt)"
    by (rule generate_call_prompt)
qed

theorem blank_input_never_submitted_witness:
  "main (\<lambda>m p c s. Inr \<lparr>resp_parts = Missing, resp_text = Missing, resp_prompt_feedback = Missing\<rparr>)
     \<lparr>tm_year = 2024, tm_mon = 3, tm_mday = 9, tm_hour = 14, tm_min = 5, tm_sec = 7\<rparr>
     (Some (GenerativeModel FREE_GEMINI_MODEL)) (cp ''  '' @ [10]) True =
     main_widgets (cp ''  '' @ [10]) \<and>
   Button ([10024] @ cp '' Weave My Story!'') True (cp ''generate_button'') \<in>
     set (main (\<lambda>m p c s. Inr \<lparr>resp_parts = Missing, resp_text = Missing, resp_prompt_feedback = Missing\<rparr>)
       \<lparr>tm_year = 2024, tm_mon = 3, tm_mday = 9, tm_hour = 14, tm_min = 5, tm_sec = 7\<rparr>
       (Some (GenerativeModel FREE_GEMINI_MODEL)) (cp ''  '' @ [10]) True) \<and>
   main (\<lambda>m p c s. Inr \<lparr>resp_parts = Missing, resp_text = Missing, resp_prompt_feedback = Missing\<rparr>)
     \<lparr>tm_year = 2024, tm_mon = 3, tm_mday = 9, tm_hour = 14, tm_min = 5, tm_sec = 7\<rparr>
     (Some (GenerativeModel FREE_GEMINI_MODEL)) (cp '' a heist '') False =
     main_widgets (cp '' a heist '') \<and>
   main (\<lambda>m p c s. Inr \<lparr>resp_parts = Missing, resp_text = Missing, resp_prompt_feedback = Missing\<rparr>)
     \<lparr>tm_year = 2024, tm_mon = 3, tm_mday = 9, tm_hour = 14, tm_min = 5, tm_sec = 7\<rparr>
     (Some (GenerativeModel FREE_GEMINI_MODEL)) (cp '' a heist '') True =
     main_widgets (cp '' a heist '') @
     [Spinner ([9997, 65039] @ cp '' Gemini is crafting your SGU story... Please wait.''),
      Generate_content (GenerativeModel FREE_GEMINI_MODEL) (full_prompt (cp ''a heist''))
        generation_config safety_settings]"
proof -
  let ?m = "Some (GenerativeModel FREE_GEMINI_MODEL)"
  let ?r = "\<lparr>resp_parts = Missing, resp_text = Missing, resp_prompt_feedback = Missing :: feedback attr\<rparr>"
  let ?api = "\<lambda>(m::model) (p::pystr) (c::generation_config) (s::safety_setting list).
      Inr ?r :: exn + response"
  let ?now = "\<lparr>tm_year = 2024, tm_mon = 3, tm_mday = 9, tm_hour = 14, tm_min = 5, tm_sec = 7\<rparr>"
  have b: "blank (cp ''  '' @ [10])"
    by (simp add: blank_def cp_def py_isspace_def)
  have n: "\<not> blank (cp '' a heist '')"
    by (simp add: blank_def cp_def py_isspace_def)
  have s: "strip (cp '' a heist '') = cp ''a heist''"
    by (simp add: strip_def cp_def py_isspace_def)
  have g: "generate_sgu_story ?api (cp ''a heist'') ?m =
      ([Generate_content (GenerativeModel FREE_GEMINI_MODEL) (full_prompt (cp ''a heist''))
          generation_config safety_settings], (None, None))"
    by (simp add: generate_sgu_story_def read_response_def getattr_prompt_feedback_def
        story_text_of_def direct_text_def)
  have d: "display_result ?now None None = []"
    by (simp add: display_result_def truthy_opt_str_def truthy_feedback_def
        feedback_has_block_reason_def)
  have 1: "main ?api ?now ?m (cp ''  '' @ [10]) True = main_widgets (cp ''  '' @ [10])"
    using blank_input_never_submitted [of "cp ''  '' @ [10]" ?api ?now ?m True] b
    by blast
  have 2: "Button ([10024] @ cp '' Weave My Story!'') True (cp ''generate_button'') \<in>
      set (main ?api ?now ?m (cp ''  '' @ [10]) True)"
    using blank_input_never_submitted [of "cp ''  '' @ [10]" ?api ?now ?m True] b
    by blast
  have 3: "main ?api ?now ?m (cp '' a heist '') False = main_widgets (cp '' a heist '')"
    using blank_input_never_submitted [of "cp '' a heist ''" ?api ?now ?m False]
    by blast
  have "main ?api ?now ?m (cp '' a heist '') True =
     main_widgets (cp '' a heist '') @
     Spinner ([9997, 65039] @ cp '' Gemini is crafting your SGU story... Please wait.'') #
     fst (generate_sgu_story ?api (strip (cp '' a heist '')) ?m) @
     display_result ?now (fst (snd (generate_sgu_story ?api (strip (cp '' a heist '')) ?m)))
       (snd (snd (generate_sgu_story ?api (strip (cp '' a heist '')) ?m)))"
    using blank_input_never_submitted [of "cp '' a heist ''" ?api ?now ?m True] n
    by blast
  then have 4: "main ?api ?now ?m (cp '' a heist '') True =
     main_widgets (cp '' a heist '') @
     [Spinner ([9997, 65039] @ cp '' Gemini is crafting your SGU story... Please wait.''),
      Generate_content (GenerativeModel FREE_GEMINI_MODEL) (full_prompt (cp ''a heist''))
        generation_config safety_settings]"
    by (simp add: s g d)
  from 1 2 3 4 show ?thesis
    by (intro conjI)
qed

section \<open>Credential resolution\<close>

lemma secret_key_none:
  "secret_key s = None \<longleftrightarrow>
   s = Secrets_missing \<or> (\<exists>e. s = Secrets_raise e) \<or> (\<exists>m. s = Secrets m \<and> m (cp ''GEMINI_API_KEY'') = None)"
  by (cases s) (simp_all add: secret_key_def)

lemma get_api_key_secret:
  "secret_key s = Some k \<Longrightarrow>
   get_api_key s environ =
     ([Sidebar_info ([128273] @ cp '' Using API Key from Streamlit secrets.'')], Returned k)"
  by (simp add: get_api_key_def)

lemma get_api_key_environ:
  "secret_key s = None \<Longrightarrow> environ (cp ''GEMINI_API_KEY'') = Some k \<Longrightarrow> k \<noteq> [] \<Longrightarrow>
   get_api_key s environ =
     ([Sidebar_info ([128273] @ cp '' Using API Key from local environment variable.'')], Returned k)"
  by (simp add: get_api_key_def truthy_opt_str_def truthy_str_def)

lemma get_api_key_stops:
  "secret_key s = None \<Longrightarrow>
   environ (cp ''GEMINI_API_KEY'') = None \<or> environ (cp ''GEMINI_API_KEY'') = Some [] \<Longrightarrow>
   get_api_key s environ = ([Error key_not_found], Stopped)"
  by (auto simp add: get_api_key_def truthy_opt_str_def truthy_str_def)

lemma script_stops:
  "get_api_key s environ = (evs, Stopped) \<Longrightarrow>
   script s environ list_models api now user_prompt clicked =
     (Page_config (cp ''SGU Story Weaver'') [128214] (cp ''centered'') # evs, Stopped)"
  by (simp add: script_def configure_gemini_def)

text \<open>
  Claim C6. \<open>get_api_key\<close> tries the deployment's secrets first: when they hold
  \<open>GEMINI_API_KEY\<close>, that secret is the credential, and the environment plays no part
  in the result (it is not read). When the secret is absent (the facility is a mapping
  without the name) or the facility is unavailable (the attribute is missing, or
  reading it raises), the credential is the environment variable \<open>GEMINI_API_KEY\<close>, if
  it is set to a non-empty string. When both are absent, the user sees the
  explanatory message and the script halts there. So the credential comes from
  exactly one source, the secrets having priority.
\<close>

theorem credential_resolution:
  "(\<forall>m k. s = Secrets m \<longrightarrow> m (cp ''GEMINI_API_KEY'') = Some k \<longrightarrow>
      get_api_key s environ =
        ([Sidebar_info ([128273] @ cp '' Using API Key from Streamlit secrets.'')], Returned k) \<and>
      (\<forall>environ'. get_api_key s environ' = get_api_key s environ)) \<and>
   (\<forall>k. s = Secrets_missing \<or> (\<exists>e. s = Secrets_raise e) \<or>
        (\<exists>m. s = Secrets m \<and> m (cp ''GEMINI_API_KEY'') = None) \<longrightarrow>
      environ (cp ''GEMINI_API_KEY'') = Some k \<longrightarrow> k \<noteq> [] \<longrightarrow>
      get_api_key s environ =
        ([Sidebar_info ([128273] @ cp '' Using API Key from local environment variable.'')],
         Returned k)) \<and>
   (s = Secrets_missing \<or> (\<exists>e. s = Secrets_raise e) \<or>
        (\<exists>m. s = Secrets m \<and> m (cp ''GEMINI_API_KEY'') = None) \<longrightarrow>
      environ (cp ''GEMINI_API_KEY'') = None \<or> environ (cp ''GEMINI_API_KEY'') = Some [] \<longrightarrow>
      get_api_key s environ = ([Error key_not_found], Stopped) \<and>
      (\<forall>list_models api now user_prompt clicked.
         script s environ list_models api now user_prompt clicked =
           ([Page_config (cp ''SGU Story Weaver'') [128214] (cp ''centered''), Error key_not_found],
            Stopped)))"
proof (intro conjI allI impI)
  fix m k
  assume "s = Secrets m" and "m (cp ''GEMINI_API_KEY'') = Some k"
  then have sk: "secret_key s = Some k"
    by (simp add: secret_key_def)
  then show "get_api_key s environ =
        ([Sidebar_info ([128273] @ cp '' Using API Key from Streamlit secrets.'')], Returned k)"
    by (rule get_api_key_secret)
  fix environ' :: environ
  show "get_api_key s environ' = get_api_key s environ"
    using sk by (simp add: get_api_key_secret)
next
  fix k
  assume "s = Secrets_missing \<or> (\<exists>e. s = Secrets_raise e) \<or>
        (\<exists>m. s = Secrets m \<and> m (cp ''GEMINI_API_KEY'') = None)"
  then have "secret_key s = None"
    by (simp add: secret_key_none)
  moreover assume "environ (cp ''GEMINI_API_KEY'') = Some k" and "k \<noteq> []"
  ultimately show "get_api_key s environ =
        ([Sidebar_info ([128273] @ cp '' Using API Key from local environment variable.'')],
         Returned k)"
    by (rule get_api_key_environ)
next
  assume "s = Secrets_missing \<or> (\<exists>e. s = Secrets_raise e) \<or>
        (\<exists>m. s = Secrets m \<and> m (cp ''GEMINI_API_KEY'') = None)"
  then have "secret_key s = None"
    by (simp add: secret_key_none)
  moreover assume "environ (cp ''GEMINI_API_KEY'') = None \<or> environ (cp ''GEMINI_API_KEY'') = Some []"
  ultimately show g: "get_api_key s environ = ([Error key_not_found], Stopped)"
    by (rule get_api_key_stops)
  fix list_models :: listing and api :: provider and now :: struct_time and user_prompt :: pystr
    and clicked :: bool
  show "script s environ list_models api now user_prompt clicked =
           ([Page_config (cp ''SGU Story Weaver'') [128214] (cp ''centered''), Error key_not_found],
            Stopped)"
    using g by (simp add: script_stops)
qed

theorem credential_resolution_witness:
  "get_api_key (Secrets [cp ''GEMINI_API_KEY'' \<mapsto> cp ''from-secrets''])
     [cp ''GEMINI_API_KEY'' \<mapsto> cp ''from-env''] =
     ([Sidebar_info ([128273] @ cp '' Using API Key from Streamlit secrets.'')],
      Returned (cp ''from-secrets'')) \<and>
   get_api_key (Secrets_raise (Exception (cp ''No secrets found'')))
     [cp ''GEMINI_API_KEY'' \<mapsto> cp ''from-env''] =
     ([Sidebar_info ([128273] @ cp '' Using API Key from local environment variable.'')],
      Returned (cp ''from-env'')) \<and>
   get_api_key (Secrets [cp ''OTHER'' \<mapsto> cp ''x''])
     [cp ''GEMINI_API_KEY'' \<mapsto> cp ''from-env''] =
     ([Sidebar_info ([128273] @ cp '' Using API Key from local environment variable.'')],
      Returned (cp ''from-env'')) \<and>
   get_api_key Secrets_missing Map.empty = ([Error key_not_found], Stopped)"
proof -
  let ?K = "cp ''GEMINI_API_KEY''"
  let ?env = "[?K \<mapsto> cp ''from-env'']"
  have ne: "cp ''from-env'' \<noteq> []"
    by (simp add: cp_def)
  have o: "[cp ''OTHER'' \<mapsto> cp ''x''] ?K = None"
    by (simp add: cp_def)
  have 1: "get_api_key (Secrets [?K \<mapsto> cp ''from-secrets'']) ?env =
     ([Sidebar_info ([128273] @ cp '' Using API Key from Streamlit secrets.'')],
      Returned (cp ''from-secrets''))"
    using credential_resolution [of "Secrets [?K \<mapsto> cp ''from-secrets'']" ?env]
    by simp
  have 2: "get_api_key (Secrets_raise (Exception (cp ''No secrets found''))) ?env =
     ([Sidebar_info ([128273] @ cp '' Using API Key from local environment variable.'')],
      Returned (cp ''from-env''))"
    using credential_resolution [of "Secrets_raise (Exception (cp ''No secrets found''))" ?env] ne
    by simp
  have 3: "get_api_key (Secrets [cp ''OTHER'' \<mapsto> cp ''x'']) ?env =
     ([Sidebar_info ([128273] @ cp '' Using API Key from local environment variable.'')],
      Returned (cp ''from-env''))"
    using credential_resolution [of "Secrets [cp ''OTHER'' \<mapsto> cp ''x'']" ?env] ne o
    by simp
  have 4: "get_api_key Secrets_missing Map.empty = ([Error key_not_found], Stopped)"
    using credential_resolution [of Secrets_missing Map.empty]
    by simp
  from 1 2 3 4 show ?thesis
    by (intro conjI)
qed

section \<open>Model selection\<close>

lemma available_models_set:
  "set (available_models ms) =
     {mi_name m | m. m \<in> set ms \<and> cp ''generateContent'' \<in> set (mi_supported_generation_methods m)}"
  by (auto simp add: available_models_def)

lemma configure_listed:
  "get_api_key s environ = (evs, Returned k) \<Longrightarrow> k \<noteq> [] \<Longrightarrow> list_models k = Inr ms \<Longrightarrow>
   configure_gemini s environ list_models =
     (if FREE_GEMINI_MODEL \<in> set (available_models ms)
      then (evs @ [Sidebar_success ([9989] @ cp '' Using model: '' @ [96] @ FREE_GEMINI_MODEL @ [96])],
            Returned (Some (GenerativeModel FREE_GEMINI_MODEL)))
      else if fallback_model \<in> set (available_models ms)
      then (evs @ [Sidebar_warning
                     ([9888, 65039] @ cp '' '' @ [96] @ FREE_GEMINI_MODEL @ [96] @
                      cp '' not found. Falling back to '' @ [96] @ fallback_model @ [96] @ cp ''.'')],
            Returned (Some (GenerativeModel fallback_model)))
      else (evs @
            [Error ([10060] @ cp '' No valid Gemini models found for content generation.''),
             Info (cp ''Available models supporting '' @ [39] @ cp ''generateContent'' @ [39] @ cp '':''),
             Json (available_models ms)],
            Stopped))"
  by (simp add: configure_gemini_def truthy_str_def)

lemma configure_raises:
  "get_api_key s environ = (evs, Returned k) \<Longrightarrow> k \<noteq> [] \<Longrightarrow> list_models k = Inl (Exception e) \<Longrightarrow>
   configure_gemini s environ list_models =
     (evs @ [Error ([128549] @ cp '' Failed to configure Gemini: '' @ e)], Stopped)"
  by (simp add: configure_gemini_def truthy_str_def)

lemma script_configure_stops:
  "configure_gemini s environ list_models = (evs, Stopped) \<Longrightarrow>
   script s environ list_models api now user_prompt clicked =
     (Page_config (cp ''SGU Story Weaver'') [128214] (cp ''centered'') # evs, Stopped)"
  by (simp add: script_def)

text \<open>
  Claim C5. Let the credential be resolved to a non-empty key, and let the provider
  list its models for it. The available models are the names of the listed models
  whose generation methods include \<open>generateContent\<close>. If the primary name
  \<open>models/gemini-2.5-flash\<close> is among them, \<open>configure_gemini\<close> selects it; else if the
  fallback name \<open>models/gemini-pro\<close> is among them, it selects the fallback; else it
  shows an error, followed by the list of the available models, and the script halts.
  If configuring the provider or listing the models raises, it shows an error with the
  exception's message, and the script halts.
\<close>

theorem model_selection:
  assumes "get_api_key s environ = (evs, Returned k)" and "k \<noteq> []"
  shows
    "(\<forall>ms. list_models k = Inr ms \<longrightarrow>
        set (available_models ms) =
          {mi_name m | m. m \<in> set ms \<and>
             cp ''generateContent'' \<in> set (mi_supported_generation_methods m)} \<and>
        (cp ''models/gemini-2.5-flash'' \<in> set (available_models ms) \<longrightarrow>
           snd (configure_gemini s environ list_models) =
             Returned (Some (GenerativeModel (cp ''models/gemini-2.5-flash'')))) \<and>
        (cp ''models/gemini-2.5-flash'' \<notin> set (available_models ms) \<longrightarrow>
         cp ''models/gemini-pro'' \<in> set (available_models ms) \<longrightarrow>
           snd (configure_gemini s environ list_models) =
             Returned (Some (GenerativeModel (cp ''models/gemini-pro'')))) \<and>
        (cp ''models/gemini-2.5-flash'' \<notin> set (available_models ms) \<longrightarrow>
         cp ''models/gemini-pro'' \<notin> set (available_models ms) \<longrightarrow>
           (\<forall>api now user_prompt clicked.
              script s environ list_models api now user_prompt clicked =
                (Page_config (cp ''SGU Story Weaver'') [128214] (cp ''centered'') # evs @
                 [Error ([10060] @ cp '' No valid Gemini models found for content generation.''),
                  Info (cp ''Available models supporting '' @ [39] @ cp ''generateContent'' @ [39] @
                        cp '':''),
                  Json (available_models ms)],
                 Stopped)))) \<and>
     (\<forall>e. list_models k = Inl (Exception e) \<longrightarrow>
        (\<forall>api now user_prompt clicked.
           script s environ list_models api now user_prompt clicked =
             (Page_config (cp ''SGU Story Weaver'') [128214] (cp ''centered'') # evs @
              [Error ([128549] @ cp '' Failed to configure Gemini: '' @ e)],
              Stopped)))"
proof (intro conjI allI impI)
  fix ms
  assume l: "list_models k = Inr ms"
  note c = configure_listed [of s environ evs k list_models ms, OF assms l]
  show "set (available_models ms) =
          {mi_name m | m. m \<in> set ms \<and>
             cp ''generateContent'' \<in> set (mi_supported_generation_methods m)}"
    by (rule available_models_set)
  {
    assume "cp ''models/gemini-2.5-flash'' \<in> set (available_models ms)"
    then show "snd (configure_gemini s environ list_models) =
             Returned (Some (GenerativeModel (cp ''models/gemini-2.5-flash'')))"
      by (simp add: c FREE_GEMINI_MODEL_def)
  }
  {
    assume "cp ''models/gemini-2.5-flash'' \<notin> set (available_models ms)"
      and "cp ''models/gemini-pro'' \<in> set (available_models ms)"
    then show "snd (configure_gemini s environ list_models) =
             Returned (Some (GenerativeModel (cp ''models/gemini-pro'')))"
      by (simp add: c FREE_GEMINI_MODEL_def fallback_model_def)
  }
  {
    fix api :: provider and now :: struct_time and user_prompt :: pystr and clicked :: bool
    assume "cp ''models/gemini-2.5-flash'' \<notin> set (available_models ms)"
      and "cp ''models/gemini-pro'' \<notin> set (available_models ms)"
    then have "configure_gemini s environ list_models =
        (evs @
         [Error ([10060] @ cp '' No valid Gemini models found for content generation.''),
          Info (cp ''Available models supporting '' @ [39] @ cp ''generateContent'' @ [39] @ cp '':''),
          Json (available_models ms)],
         Stopped)"
      by (simp add: c FREE_GEMINI_MODEL_def fallback_model_def)
    then show "script s environ list_models api now user_prompt clicked =
                (Page_config (cp ''SGU Story Weaver'') [128214] (cp ''centered'') # evs @
                 [Error ([10060] @ cp '' No valid Gemini models found for content generation.''),
                  Info (cp ''Available models supporting '' @ [39] @ cp ''generateContent'' @ [39] @
                        cp '':''),
                  Json (available_models ms)],
                 Stopped)"
      by (simp add: script_configure_stops)
  }
next
  fix e and api :: provider and now :: struct_time and user_prompt :: pystr and clicked :: bool
  assume "list_models k = Inl (Exception e)"
  then have "configure_gemini s environ list_models =
      (evs @ [Error ([128549] @ cp '' Failed to configure Gemini: '' @ e)], Stopped)"
    using assms configure_raises [of s environ evs k list_models e] by simp
  then show "script s environ list_models api now user_prompt clicked =
             (Page_config (cp ''SGU Story Weaver'') [128214] (cp ''centered'') # evs @
              [Error ([128549] @ cp '' Failed to configure Gemini: '' @ e)],
              Stopped)"
    by (simp add: script_configure_stops)
qed

theorem model_selection_witness:
  "snd (configure_gemini (Secrets [cp ''GEMINI_API_KEY'' \<mapsto> cp ''k'']) Map.empty
     (\<lambda>k. Inr [\<lparr>mi_name = cp ''models/gemini-pro'',
                    mi_supported_generation_methods = [cp ''generateContent'']\<rparr>,
                 \<lparr>mi_name = cp ''models/gemini-2.5-flash'',
                    mi_supported_generation_methods = [cp ''countTokens'', cp ''generateContent'']\<rparr>])) =
     Returned (Some (GenerativeModel (cp ''models/gemini-2.5-flash''))) \<and>
   snd (configure_gemini (Secrets [cp ''GEMINI_API_KEY'' \<mapsto> cp ''k'']) Map.empty
     (\<lambda>k. Inr [\<lparr>mi_name = cp ''models/gemini-pro'',
                    mi_supported_generation_methods = [cp ''generateContent'']\<rparr>,
                 \<lparr>mi_name = cp ''models/gemini-2.5-flash'',
                    mi_supported_generation_methods = [cp ''countTokens'']\<rparr>])) =
     Returned (Some (GenerativeModel (cp ''models/gemini-pro''))) \<and>
   script (Secrets [cp ''GEMINI_API_KEY'' \<mapsto> cp ''k'']) Map.empty
     (\<lambda>k. Inr [\<lparr>mi_name = cp ''models/other'',
                    mi_supported_generation_methods = [cp ''generateContent'']\<rparr>,
                 \<lparr>mi_name = cp ''models/gemini-2.5-flash'',
                    mi_supported_generation_methods = [cp ''countTokens'']\<rparr>])
     (\<lambda>m p c s. Inl (Exception []))
     \<lparr>tm_year = 2024, tm_mon = 3, tm_mday = 9, tm_hour = 14, tm_min = 5, tm_sec = 7\<rparr>
     (cp ''a heist'') True =
     ([Page_config (cp ''SGU Story Weaver'') [128214] (cp ''centered''),
       Sidebar_info ([128273] @ cp '' Using API Key from Streamlit secrets.''),
       Error ([10060] @ cp '' No valid Gemini models found for content generation.''),
       Info (cp ''Available models supporting '' @ [39] @ cp ''generateContent'' @ [39] @ cp '':''),
       Json [cp ''models/other'']],
      Stopped) \<and>
   script (Secrets [cp ''GEMINI_API_KEY'' \<mapsto> cp ''k'']) Map.empty
     (\<lambda>k. Inl (Exception (cp ''503 unavailable'')))
     (\<lambda>m p c s. Inl (Exception []))
     \<lparr>tm_year = 2024, tm_mon = 3, tm_mday = 9, tm_hour = 14, tm_min = 5, tm_sec = 7\<rparr>
     (cp ''a heist'') True =
     ([Page_config (cp ''SGU Story Weaver'') [128214] (cp ''centered''),
       Sidebar_info ([128273] @ cp '' Using API Key from Streamlit secrets.''),
       Error ([128549] @ cp '' Failed to configure Gemini: '' @ cp ''503 unavailable'')],
      Stopped)"
proof -
  let ?S = "Secrets [cp ''GEMINI_API_KEY'' \<mapsto> cp ''k'']"
  let ?E = "Map.empty :: environ"
  let ?evs = "[Sidebar_info ([128273] @ cp '' Using API Key from Streamlit secrets.'')]"
  let ?now = "\<lparr>tm_year = 2024, tm_mon = 3, tm_mday = 9, tm_hour = 14, tm_min = 5, tm_sec = 7\<rparr>"
  let ?api = "\<lambda>(m::model) (p::pystr) (c::generation_config) (s::safety_setting list).
      Inl (Exception []) :: exn + response"
  let ?ms1 = "[\<lparr>mi_name = cp ''models/gemini-pro'',
                 mi_supported_generation_methods = [cp ''generateContent'']\<rparr>,
               \<lparr>mi_name = cp ''models/gemini-2.5-flash'',
                 mi_supported_generation_methods = [cp ''countTokens'', cp ''generateContent'']\<rparr>]"
  let ?ms2 = "[\<lparr>mi_name = cp ''models/gemini-pro'',
                 mi_supported_generation_methods = [cp ''generateContent'']\<rparr>,
               \<lparr>mi_name = cp ''models/gemini-2.5-flash'',
                 mi_supported_generation_methods = [cp ''countTokens'']\<rparr>]"
  let ?ms3 = "[\<lparr>mi_name = cp ''models/other'',
                 mi_supported_generation_methods = [cp ''generateContent'']\<rparr>,
               \<lparr>mi_name = cp ''models/gemini-2.5-flash'',
                 mi_supported_generation_methods = [cp ''countTokens'']\<rparr>]"
  have g: "get_api_key ?S ?E = (?evs, Returned (cp ''k''))"
    by (simp add: get_api_key_def secret_key_def)
  have k: "cp ''k'' \<noteq> []"
    by (simp add: cp_def)
  have a1: "cp ''models/gemini-2.5-flash'' \<in> set (available_models ?ms1)"
    by (simp add: available_models_def cp_def)
  have a2: "cp ''models/gemini-2.5-flash'' \<notin> set (available_models ?ms2)"
    "cp ''models/gemini-pro'' \<in> set (available_models ?ms2)"
    by (simp_all add: available_models_def cp_def)
  have a3: "cp ''models/gemini-2.5-flash'' \<notin> set (available_models ?ms3)"
    "cp ''models/gemini-pro'' \<notin> set (available_models ?ms3)"
    by (simp_all add: available_models_def cp_def)
  have j: "available_models ?ms3 = [cp ''models/other'']"
    by (simp add: available_models_def cp_def)
  have 1: "snd (configure_gemini ?S ?E (\<lambda>k. Inr ?ms1)) =
      Returned (Some (GenerativeModel (cp ''models/gemini-2.5-flash'')))"
    using model_selection [of ?S ?E ?evs "cp ''k''" "\<lambda>k. Inr ?ms1", OF g k] a1
    by blast
  have 2: "snd (configure_gemini ?S ?E (\<lambda>k. Inr ?ms2)) =
      Returned (Some (GenerativeModel (cp ''models/gemini-pro'')))"
    using model_selection [of ?S ?E ?evs "cp ''k''" "\<lambda>k. Inr ?ms2", OF g k] a2
    by blast
  have "script ?S ?E (\<lambda>k. Inr ?ms3) ?api ?now (cp ''a heist'') True =
      (Page_config (cp ''SGU Story Weaver'') [128214] (cp ''centered'') # ?evs @
       [Error ([10060] @ cp '' No valid Gemini models found for content generation.''),
        Info (cp ''Available models supporting '' @ [39] @ cp ''generateContent'' @ [39] @ cp '':''),
        Json (available_models ?ms3)],
       Stopped)"
    using model_selection [of ?S ?E ?evs "cp ''k''" "\<lambda>k. Inr ?ms3", OF g k] a3
    by blast
  then have 3: "script ?S ?E (\<lambda>k. Inr ?ms3) ?api ?now (cp ''a heist'') True =
     ([Page_config (cp ''SGU Story Weaver'') [128214] (cp ''centered''),
       Sidebar_info ([128273] @ cp '' Using API Key from Streamlit secrets.''),
       Error ([10060] @ cp '' No valid Gemini models found for content generation.''),
       Info (cp ''Available models supporting '' @ [39] @ cp ''generateContent'' @ [39] @ cp '':''),
       Json [cp ''models/other'']],
      Stopped)"
    by (simp add: j)
  have "script ?S ?E (\<lambda>k. Inl (Exception (cp ''503 unavailable''))) ?api ?now (cp ''a heist'') True =
      (Page_config (cp ''SGU Story Weaver'') [128214] (cp ''centered'') # ?evs @
       [Error ([128549] @ cp '' Failed to configure Gemini: '' @ cp ''503 unavailable'')],
       Stopped)"
    using model_selection [of ?S ?E ?evs "cp ''k''" "\<lambda>k. Inl (Exception (cp ''503 unavailable''))", OF g k]
    by blast
  then have 4: "script ?S ?E (\<lambda>k. Inl (Exception (cp ''503 unavailable''))) ?api ?now (cp ''a heist'') True =
     ([Page_config (cp ''SGU Story Weaver'') [128214] (cp ''centered''),
       Sidebar_info ([128273] @ cp '' Using API Key from Streamlit secrets.''),
       Error ([128549] @ cp '' Failed to configure Gemini: '' @ cp ''503 unavailable'')],
      Stopped)"
    by simp
  from 1 2 3 4 show ?thesis
    by (intro conjI)
qed

section \<open>The downloadable file\<close>

lemma div_1000: "(n::nat) div 10 div 100 = n div 1000"
  by (simp add: div_mult2_eq [symmetric])

lemma div_100: "(n::nat) div 10 div 10 = n div 100"
  by (simp add: div_mult2_eq [symmetric])

lemma decimal_one: "n < 10 \<Longrightarrow> decimal n = [48 + n]"
  by (subst decimal.simps) simp

lemma decimal_two: "10 \<le> n \<Longrightarrow> n < 100 \<Longrightarrow> decimal n = [48 + n div 10, 48 + n mod 10]"
  by (subst decimal.simps) (simp add: decimal_one)

lemma decimal_three:
  "100 \<le> n \<Longrightarrow> n < 1000 \<Longrightarrow> decimal n = [48 + n div 100, 48 + n div 10 mod 10, 48 + n mod 10]"
  by (subst decimal.simps) (simp add: decimal_two div_100)

lemma decimal_four:
  "1000 \<le> n \<Longrightarrow> n \<le> 9999 \<Longrightarrow>
   decimal n = [48 + n div 1000, 48 + n div 100 mod 10, 48 + n div 10 mod 10, 48 + n mod 10]"
  by (subst decimal.simps) (simp add: decimal_three div_100 div_1000)

lemma pad2_two: "n < 100 \<Longrightarrow> pad2 n = [48 + n div 10, 48 + n mod 10]"
  by (cases "n < 10") (simp_all add: pad2_def decimal_one decimal_two)

lemma is_digit_mod: "is_digit (48 + n mod 10)"
  by (simp add: is_digit_def)

lemma is_digit_div_10: "n < 100 \<Longrightarrow> is_digit (48 + n div 10)"
  by (simp add: is_digit_def)

lemma is_digit_div_1000: "n \<le> 9999 \<Longrightarrow> is_digit (48 + n div 1000)"
  by (simp add: is_digit_def)

lemma strftime_valid:
  assumes "valid_time t"
  shows "strftime_Ymd_HMS t =
    [48 + tm_year t div 1000, 48 + tm_year t div 100 mod 10, 48 + tm_year t div 10 mod 10,
     48 + tm_year t mod 10,
     48 + tm_mon t div 10, 48 + tm_mon t mod 10,
     48 + tm_mday t div 10, 48 + tm_mday t mod 10,
     95,
     48 + tm_hour t div 10, 48 + tm_hour t mod 10,
     48 + tm_min t div 10, 48 + tm_min t mod 10,
     48 + tm_sec t div 10, 48 + tm_sec t mod 10]"
proof -
  have y: "decimal (tm_year t) =
      [48 + tm_year t div 1000, 48 + tm_year t div 100 mod 10, 48 + tm_year t div 10 mod 10,
       48 + tm_year t mod 10]"
    using assms by (simp add: valid_time_def decimal_four)
  have p: "pad2 (tm_mon t) = [48 + tm_mon t div 10, 48 + tm_mon t mod 10]"
    "pad2 (tm_mday t) = [48 + tm_mday t div 10, 48 + tm_mday t mod 10]"
    "pad2 (tm_hour t) = [48 + tm_hour t div 10, 48 + tm_hour t mod 10]"
    "pad2 (tm_min t) = [48 + tm_min t div 10, 48 + tm_min t mod 10]"
    "pad2 (tm_sec t) = [48 + tm_sec t div 10, 48 + tm_sec t mod 10]"
    using assms by (simp_all add: valid_time_def pad2_two)
  have u: "cp ''_'' = [95]"
    by (simp add: cp_def)
  show ?thesis
    unfolding strftime_Ymd_HMS_def y p u by simp
qed

lemma file_name_matches:
  assumes "valid_time t"
  shows "matches_file_name_pattern (cp ''sgu_story_'' @ strftime_Ymd_HMS t @ cp ''.txt'')"
proof -
  have d: "is_digit (48 + tm_year t div 1000)" "is_digit (48 + tm_mon t div 10)"
    "is_digit (48 + tm_mday t div 10)" "is_digit (48 + tm_hour t div 10)"
    "is_digit (48 + tm_min t div 10)" "is_digit (48 + tm_sec t div 10)"
    using assms by (simp_all add: valid_time_def is_digit_div_10 is_digit_div_1000)
  have a: "cp ''sgu_story_'' = [115, 103, 117, 95, 115, 116, 111, 114, 121, 95]"
    and b: "cp ''.txt'' = [46, 116, 120, 116]"
    and c: "cp ''_'' = [95]"
    by (simp_all add: cp_def)
  show ?thesis
    unfolding strftime_valid [OF assms] matches_file_name_pattern_def a b c
    by (simp add: is_digit_mod d)
qed

text \<open>
  Claim C8. When a submission produces a non-empty text, \<open>main\<close> renders it and
  offers exactly one download: its content is the generated text itself, unchanged;
  its media type is \<open>text/plain\<close>; and its name is \<open>sgu_story_\<close>, the timestamp of
  the clock and \<open>.txt\<close>, which matches \<open>sgu_story_\d{8}_\d{6}\.txt\<close>. The clock reading
  is a local time with a year of four digits (\<open>valid_time\<close>).
\<close>

theorem download_file:
  assumes "clicked"
    and "strip user_prompt \<noteq> []"
    and "fst (snd (generate_sgu_story api (strip user_prompt) the_model)) = Some s"
    and "s \<noteq> []"
    and "valid_time now"
  shows
    "main api now the_model user_prompt clicked =
       main_widgets user_prompt @
       Spinner ([9997, 65039] @ cp '' Gemini is crafting your SGU story... Please wait.'') #
       fst (generate_sgu_story api (strip user_prompt) the_model) @
       [Markdown (cp ''---''),
        Subheader ([128220] @ cp '' Your SGU Story:''),
        Container,
        Markdown s,
        Download_button
          \<lparr>dl_label = [128229] @ cp '' Download Story (.txt)'',
           dl_data = s,
           dl_file_name = cp ''sgu_story_'' @ strftime_Ymd_HMS now @ cp ''.txt'',
           dl_mime = cp ''text/plain'',
           dl_key = cp ''download_'' @ strftime_Ymd_HMS now\<rparr>] \<and>
     matches_file_name_pattern (cp ''sgu_story_'' @ strftime_Ymd_HMS now @ cp ''.txt'') \<and>
     (\<forall>d. Download_button d \<in> set (main api now the_model user_prompt clicked) \<longrightarrow>
        dl_data d = s \<and> dl_mime d = cp ''text/plain'' \<and> matches_file_name_pattern (dl_file_name d))"
proof -
  let ?d = "\<lparr>dl_label = [128229] @ cp '' Download Story (.txt)'',
           dl_data = s,
           dl_file_name = cp ''sgu_story_'' @ strftime_Ymd_HMS now @ cp ''.txt'',
           dl_mime = cp ''text/plain'',
           dl_key = cp ''download_'' @ strftime_Ymd_HMS now\<rparr>"
  have m: "main api now the_model user_prompt clicked =
       main_widgets user_prompt @
       Spinner ([9997, 65039] @ cp '' Gemini is crafting your SGU story... Please wait.'') #
       fst (generate_sgu_story api (strip user_prompt) the_model) @
       [Markdown (cp ''---''),
        Subheader ([128220] @ cp '' Your SGU Story:''),
        Container,
        Markdown s,
        Download_button ?d]"
    using assms(1,2,3,4) display_story [of s now]
    by (simp add: main_submitted)
  have p: "matches_file_name_pattern (cp ''sgu_story_'' @ strftime_Ymd_HMS now @ cp ''.txt'')"
    using assms(5) by (rule file_name_matches)
  have w: "Download_button d \<notin> set (main_widgets user_prompt)" for d
    by (simp add: main_widgets_def)
  have g: "Download_button d \<notin> set (fst (generate_sgu_story api (strip user_prompt) the_model))" for d
    using generate_events [of "Download_button d" api "strip user_prompt" the_model] by blast
  have e: "d = ?d" if "Download_button d \<in> set (main api now the_model user_prompt clicked)" for d
    using that w g unfolding m by simp
  have a: "dl_data d = s \<and> dl_mime d = cp ''text/plain'' \<and> matches_file_name_pattern (dl_file_name d)"
    if "Download_button d \<in> set (main api now the_model user_prompt clicked)" for d
    unfolding e [OF that] using p by simp
  from m p a show ?thesis
    by blast
qed

theorem download_file_witness:
  "main
     (\<lambda>m p c s. Inr \<lparr>resp_parts = Value [\<lparr>part_text = Value (cp ''Once.'')\<rparr>], resp_text = Missing,
        resp_prompt_feedback = Missing\<rparr>)
     \<lparr>tm_year = 2024, tm_mon = 3, tm_mday = 9, tm_hour = 14, tm_min = 5, tm_sec = 7\<rparr>
     (Some (GenerativeModel FREE_GEMINI_MODEL)) (cp '' a heist '') True =
   main_widgets (cp '' a heist '') @
     [Spinner ([9997, 65039] @ cp '' Gemini is crafting your SGU story... Please wait.''),
      Generate_content (GenerativeModel FREE_GEMINI_MODEL) (full_prompt (cp ''a heist''))
        generation_config safety_settings,
      Markdown (cp ''---''),
      Subheader ([128220] @ cp '' Your SGU Story:''),
      Container,
      Markdown (cp ''Once.''),
      Download_button
        \<lparr>dl_label = [128229] @ cp '' Download Story (.txt)'',
         dl_data = cp ''Once.'',
         dl_file_name = cp ''sgu_story_20240309_140507.txt'',
         dl_mime = cp ''text/plain'',
         dl_key = cp ''download_20240309_140507''\<rparr>] \<and>
   matches_file_name_pattern (cp ''sgu_story_20240309_140507.txt'')"
proof -
  let ?m = "Some (GenerativeModel FREE_GEMINI_MODEL)"
  let ?r = "\<lparr>resp_parts = Value [\<lparr>part_text = Value (cp ''Once.'')\<rparr>], resp_text = Missing,
        resp_prompt_feedback = Missing :: feedback attr\<rparr>"
  let ?api = "\<lambda>(m::model) (p::pystr) (c::generation_config) (s::safety_setting list).
      Inr ?r :: exn + response"
  let ?now = "\<lparr>tm_year = 2024, tm_mon = 3, tm_mday = 9, tm_hour = 14, tm_min = 5, tm_sec = 7\<rparr>"
  have s: "strip (cp '' a heist '') = cp ''a heist''"
    by (simp add: strip_def cp_def py_isspace_def)
  have n: "strip (cp '' a heist '') \<noteq> []"
    by (simp add: s) (simp add: cp_def)
  have g: "generate_sgu_story ?api (cp ''a heist'') ?m =
      ([Generate_content (GenerativeModel FREE_GEMINI_MODEL) (full_prompt (cp ''a heist''))
          generation_config safety_settings], (Some (cp ''Once.''), None))"
    by (simp add: generate_sgu_story_def read_response_def getattr_prompt_feedback_def
        story_text_of_def join_part_texts_def text_of_part_def exception_of_part_def)
  have t: "fst (snd (generate_sgu_story ?api (strip (cp '' a heist '')) ?m)) = Some (cp ''Once.'')"
    by (simp add: s g)
  have o: "cp ''Once.'' \<noteq> []"
    by (simp add: cp_def)
  have v: "valid_time ?now"
    by (simp add: valid_time_def)
  have ts: "strftime_Ymd_HMS ?now = cp ''20240309_140507''"
    by (simp add: strftime_Ymd_HMS_def pad2_def decimal.simps cp_def)
  have f: "cp ''sgu_story_'' @ cp ''20240309_140507'' @ cp ''.txt'' = cp ''sgu_story_20240309_140507.txt''"
    "cp ''download_'' @ cp ''20240309_140507'' = cp ''download_20240309_140507''"
    by (simp_all add: cp_def)
  note T = download_file [of True "cp '' a heist ''" ?api ?m "cp ''Once.''" ?now, OF TrueI n t o v]
  from T have "main ?api ?now ?m (cp '' a heist '') True =
       main_widgets (cp '' a heist '') @
       Spinner ([9997, 65039] @ cp '' Gemini is crafting your SGU story... Please wait.'') #
       fst (generate_sgu_story ?api (strip (cp '' a heist '')) ?m) @
       [Markdown (cp ''---''),
        Subheader ([128220] @ cp '' Your SGU Story:''),
        Container,
        Markdown (cp ''Once.''),
        Download_button
          \<lparr>dl_label = [128229] @ cp '' Download Story (.txt)'',
           dl_data = cp ''Once.'',
           dl_file_name = cp ''sgu_story_'' @ strftime_Ymd_HMS ?now @ cp ''.txt'',
           dl_mime = cp ''text/plain'',
           dl_key = cp ''download_'' @ strftime_Ymd_HMS ?now\<rparr>]"
    by (rule conjunct1)
  then have 1: "main ?api ?now ?m (cp '' a heist '') True =
     main_widgets (cp '' a heist '') @
     [Spinner ([9997, 65039] @ cp '' Gemini is crafting your SGU story... Please wait.''),
      Generate_content (GenerativeModel FREE_GEMINI_MODEL) (full_prompt (cp ''a heist''))
        generation_config safety_settings,
      Markdown (cp ''---''),
      Subheader ([128220] @ cp '' Your SGU Story:''),
      Container,
      Markdown (cp ''Once.''),
      Download_button
        \<lparr>dl_label = [128229] @ cp '' Download Story (.txt)'',
         dl_data = cp ''Once.'',
         dl_file_name = cp ''sgu_story_20240309_140507.txt'',
         dl_mime = cp ''text/plain'',
         dl_key = cp ''download_20240309_140507''\<rparr>]"
    by (simp add: s g ts f)
  from T have "matches_file_name_pattern (cp ''sgu_story_'' @ strftime_Ymd_HMS ?now @ cp ''.txt'')"
    by (rule conjunct1 [OF conjunct2])
  then have 2: "matches_file_name_pattern (cp ''sgu_story_20240309_140507.txt'')"
    by (simp add: ts f)
  from 1 2 show ?thesis
    by (intro conjI)
qed

end
